(* ===== verification/Prelude.thy ===== *)
theory Prelude
  imports Main "HOL-Library.Word"
begin

text \<open>
  Shared vocabulary of the development: the names of the model's basic types, the
  collection of definitions that are unfolded when a model is evaluated on a
  concrete input, and generic lemmas on lists of state transformers and on
  association lists that the component theories share.
\<close>

named_theorems model_defs "definitions unfolded to evaluate the model on concrete inputs"
named_theorems inv_intros "preservation lemmas of the supervisor invariant"

type_synonym key = string   \<comment> \<open>a configuration key \<open>section/name\<close>\<close>
type_synonym path = string  \<comment> \<open>a file-system path, as a \<open>QString\<close>\<close>
type_synonym pid = nat      \<comment> \<open>an OS process identifier\<close>

subsection \<open>Sequences of calls\<close>

text \<open>
  A sequence of calls \<open>f x\<^sub>1; f x\<^sub>2; \<dots>\<close> on an object is a left fold of the
  call over the argument list. A property kept by every call is kept by the sequence.
\<close>

lemma fold_preserve:
  assumes "\<And>x s. x \<in> set xs \<Longrightarrow> P s \<Longrightarrow> P (f x s)" and "P s"
  shows "P (fold f xs s)"
  using assms by (induction xs arbitrary: s) auto

lemma fold_frame:
  assumes "\<And>x s. x \<in> set xs \<Longrightarrow> g (f x s) = g s"
  shows "g (fold f xs s) = g s"
  using assms by (induction xs arbitrary: s) auto

subsection \<open>Association lists used as process tables\<close>

text \<open>
  A table of live processes is a list of \<open>(pid, owner)\<close> pairs. Removing an entry is a
  filter on the key; the lemmas below are the facts about it the invariants need.
\<close>

definition drop_key :: "'k \<Rightarrow> ('k \<times> 'v) list \<Rightarrow> ('k \<times> 'v) list" where
  "drop_key k xs = filter (\<lambda>(k', _). k' \<noteq> k) xs"

lemma set_drop_key [simp]: "set (drop_key k xs) = {(k', v). (k', v) \<in> set xs \<and> k' \<noteq> k}"
  by (auto simp: drop_key_def)

lemma drop_key_Nil [simp]: "drop_key k [] = []"
  by (simp add: drop_key_def)

lemma drop_key_Cons [simp]:
  "drop_key k ((k', v) # xs) = (if k' = k then drop_key k xs else (k', v) # drop_key k xs)"
  by (simp add: drop_key_def)

lemma distinct_map_drop_key [intro]:
  "distinct (map f xs) \<Longrightarrow> distinct (map f (drop_key k xs))"
  by (simp add: drop_key_def distinct_map_filter)

lemma distinct_map_snoc:
  "distinct (map f (xs @ [x])) \<longleftrightarrow> distinct (map f xs) \<and> f x \<notin> f ` set xs"
  by auto

end
