(* ===== verification/Settings.thy ===== *)
theory Settings
  imports Prelude
begin

text \<open>
  The configuration store. The tray reads every flag and path with
  \<open>settings->get(key)\<close> and converts the returned \<open>QVariant\<close> with
  \<open>.toBool()\<close> or \<open>.toString()\<close> (\<open>src/src/tray.cpp\<close>). The \<open>Settings\<close> class
  itself (\<open>settings.cpp\<close>) is not part of the sources: it is modelled from the spec as
  a read-only map from keys to variants, read afresh at every operation. An absent
  key reads as the invalid variant. The conversions follow \<open>QVariant\<close>: an INI file
  yields strings, and a string converts to \<open>false\<close> only when it is empty, \<open>0\<close> or
  \<open>false\<close> in any letter case.
\<close>

datatype qvariant = QInvalid | QBool bool | QString string

type_synonym settings = "key \<rightharpoonup> qvariant"

definition settings_get :: "settings \<Rightarrow> key \<Rightarrow> qvariant" where
  "settings_get cfg k = (case cfg k of None \<Rightarrow> QInvalid | Some v \<Rightarrow> v)"

text \<open>A string converts to \<open>false\<close> exactly when, lowered (\<open>QString::toLower\<close> on ASCII
  letters), it is empty, \<open>0\<close> or \<open>false\<close>.\<close>

fun toBool :: "qvariant \<Rightarrow> bool" where
  "toBool QInvalid = False"
| "toBool (QBool b) = b"
| "toBool (QString s) =
     (let l = map (\<lambda>c. let n = (of_char c :: nat) in if 65 \<le> n \<and> n \<le> 90 then char_of (n + 32) else c) s
      in \<not> (l = [] \<or> l = ''0'' \<or> l = ''false''))"

fun toString :: "qvariant \<Rightarrow> string" where
  "toString QInvalid = []"
| "toString (QBool b) = (if b then ''true'' else ''false'')"
| "toString (QString s) = s"

definition flag :: "settings \<Rightarrow> key \<Rightarrow> bool" where
  "flag cfg k = toBool (settings_get cfg k)"

declare settings_get_def [model_defs] flag_def [model_defs]

lemma flag_absent [simp]: "cfg k = None \<Longrightarrow> \<not> flag cfg k"
  by (simp add: flag_def settings_get_def)

lemma flag_bool [simp]: "cfg k = Some (QBool b) \<Longrightarrow> flag cfg k = b"
  by (simp add: flag_def settings_get_def)

end
