(* ===== verification/Daemons.thy ===== *)
theory Daemons
  imports Settings
begin

text \<open>
  The daemon descriptor set: the five daemons the tray controls, and for each the
  executable name (the \<open>*_EXEC\<close> macros of \<open>src/src/mainwindow.h\<close>), the
  configuration keys of its installation directory and autostart flag (the keys read in
  \<open>src/src/tray.cpp\<close>), the keys of its launch arguments, and its optional
  cooperative shutdown client (\<open>MARIADB_CLIENT_EXEC\<close>). The daemon type is an
  instance of \<open>enum\<close>, so that statements over all daemons evaluate.
\<close>

datatype daemon = Nginx | Php | MariaDb | MongoDb | Memcached

instantiation daemon :: enum
begin

definition enum_daemon :: "daemon list" where
  "enum_daemon = [Nginx, Php, MariaDb, MongoDb, Memcached]"

definition enum_all_daemon :: "(daemon \<Rightarrow> bool) \<Rightarrow> bool" where
  "enum_all_daemon P \<longleftrightarrow> P Nginx \<and> P Php \<and> P MariaDb \<and> P MongoDb \<and> P Memcached"

definition enum_ex_daemon :: "(daemon \<Rightarrow> bool) \<Rightarrow> bool" where
  "enum_ex_daemon P \<longleftrightarrow> P Nginx \<or> P Php \<or> P MariaDb \<or> P MongoDb \<or> P Memcached"

lemma UNIV_daemon: "UNIV = {Nginx, Php, MariaDb, MongoDb, Memcached}"
proof -
  have "k \<in> {Nginx, Php, MariaDb, MongoDb, Memcached}" for k by (cases k) simp_all
  then show ?thesis by blast
qed

instance
  by standard (auto simp: enum_daemon_def enum_all_daemon_def enum_ex_daemon_def UNIV_daemon)

end

lemma all_daemon: "(\<forall>k. P k) \<longleftrightarrow> P Nginx \<and> P Php \<and> P MariaDb \<and> P MongoDb \<and> P Memcached"
  by (metis daemon.exhaust)

lemma ex_daemon: "(\<exists>k. P k) \<longleftrightarrow> P Nginx \<or> P Php \<or> P MariaDb \<or> P MongoDb \<or> P Memcached"
  by (metis daemon.exhaust)

subsection \<open>Descriptors\<close>

text \<open>\<open>#define NGINX_EXEC "/nginx.exe"\<close> and its siblings.\<close>

fun exec_name :: "daemon \<Rightarrow> string" where
  "exec_name Nginx = ''/nginx.exe''"
| "exec_name Php = ''/php-cgi.exe''"
| "exec_name MariaDb = ''/mysqld.exe''"
| "exec_name MongoDb = ''/mongod.exe''"
| "exec_name Memcached = ''/memcached.exe''"

text \<open>\<open>#define MARIADB_CLIENT_EXEC "/mysql.exe"\<close>: the one daemon with its own shutdown client.\<close>

fun graceful_stop_client :: "daemon \<Rightarrow> string option" where
  "graceful_stop_client MariaDb = Some ''/mysql.exe''"
| "graceful_stop_client _ = None"

fun dir_key :: "daemon \<Rightarrow> key" where
  "dir_key Nginx = ''paths/nginx''"
| "dir_key Php = ''paths/php''"
| "dir_key MariaDb = ''paths/mariadb''"
| "dir_key MongoDb = ''paths/mongodb''"
| "dir_key Memcached = ''paths/memcached''"

fun autostart_key :: "daemon \<Rightarrow> key" where
  "autostart_key Nginx = ''autostart/nginx''"
| "autostart_key Php = ''autostart/php''"
| "autostart_key MariaDb = ''autostart/mariadb''"
| "autostart_key MongoDb = ''autostart/mongodb''"
| "autostart_key Memcached = ''autostart/memcached''"

text \<open>The configuration files passed on the command line (\<open>cfgNginxConfig\<close>, \<open>cfgPhpConfig\<close>, \<open>cfgMariaDBConfig\<close>).\<close>

fun arg_keys :: "daemon \<Rightarrow> key list" where
  "arg_keys Nginx = [''nginx/config'']"
| "arg_keys Php = [''php/config'']"
| "arg_keys MariaDb = [''mariadb/config'']"
| "arg_keys MongoDb = []"
| "arg_keys Memcached = []"

text \<open>Membership of a daemon in the two orders the tray uses, as the simplifier normalises it.\<close>

lemma daemon_in_lists [simp]:
  "k = Nginx \<or> k = Php \<or> k = MariaDb \<or> k = MongoDb \<or> k = Memcached"
  "k = MariaDb \<or> k = Php \<or> k = Nginx \<or> k = MongoDb \<or> k = Memcached"
  by (cases k; simp)+

lemma dir_key_inj: "dir_key k = dir_key k' \<longleftrightarrow> k = k'"
  by (cases k; cases k') simp_all

lemma autostart_key_inj: "autostart_key k = autostart_key k' \<longleftrightarrow> k = k'"
  by (cases k; cases k') simp_all

end
