(* ===== verification/Supervisor.thy ===== *)
theory Supervisor
  imports Daemons
begin

text \<open>
  The process supervisor: the \<open>Servers\<close> object the tray holds (\<open>servers\<close> in
  \<open>src/src/tray.cpp\<close>; its class, \<open>servers.cpp\<close>, is not among the sources and is
  modelled from the spec, sections 3, 4.2 and 7). It owns one \<open>dstate\<close> per daemon
  (status, process handle, last exit code), the table of OS processes it has created,
  the log of requests it sent to the OS and the log of status-changed notifications
  it sent to the presentation layer. What the OS does in answer (whether a file exists,
  whether a process obeys a stop request and how long it takes) is an explicit
  environment record \<open>os_env\<close>, so that every branch of the code is a branch of the
  model. Every operation returns \<open>Inl\<close> of an error or \<open>Inr ()\<close> with the new
  state: errors are reported, never raised.
\<close>

datatype status = Stopped | Starting | Running | Failed

record dstate =
  st :: status
  handle :: "pid option"
  last_exit :: "int option"

datatype launch_error = ConfigurationMissing key | ExecutableNotFound path | CreationDenied path

datatype sup_error = LaunchFailure daemon launch_error | TerminationFailure daemon

datatype os_request =
    Spawn daemon pid path "string list" path  \<comment> \<open>executable, arguments, working directory\<close>
  | ClientShutdown daemon pid path              \<comment> \<open>the daemon's own shutdown client\<close>
  | Terminate daemon pid                        \<comment> \<open>cooperative stop signal\<close>
  | WaitExit daemon pid nat                     \<comment> \<open>milliseconds waited for the exit\<close>
  | ForceKill daemon pid

datatype notification = StatusChanged daemon status "int option"

record os_env =
  file_exists :: "path \<Rightarrow> bool"
  create_allowed :: "path \<Rightarrow> bool"
  exit_after_ms :: "pid \<Rightarrow> nat option"   \<comment> \<open>reaction to a cooperative stop; \<open>None\<close>: ignores it\<close>
  killable :: "pid \<Rightarrow> bool"
  exit_code :: "pid \<Rightarrow> int"

record sup =
  table :: "daemon \<Rightarrow> dstate"
  live :: "(pid \<times> daemon) list"
  next_pid :: pid
  requests :: "os_request list"
  notified :: "notification list"

text \<open>The bound of the stop sequence: 3 seconds before escalating to a forced kill (spec, section 5).\<close>

definition stop_timeout_ms :: nat where
  "stop_timeout_ms = 3000"

definition init_sup :: sup where
  "init_sup = \<lparr>table = (\<lambda>_. \<lparr>st = Stopped, handle = None, last_exit = None\<rparr>), live = [], next_pid = 1, requests = [], notified = []\<rparr>"

definition statusOf :: "sup \<Rightarrow> daemon \<Rightarrow> status" where
  "statusOf s k = st (table s k)"

subsection \<open>Resolving the launch recipe\<close>

text \<open>
  The descriptor's keys are looked up afresh at every start: the installation directory
  (\<open>paths/...\<close>) gives the working directory and, with the executable name appended,
  the program; the argument keys give the arguments in order. A missing key is a
  \<open>ConfigurationMissing\<close> launch failure.
\<close>

fun resolve_args :: "settings \<Rightarrow> key list \<Rightarrow> launch_error + string list" where
  "resolve_args cfg [] = Inr []"
| "resolve_args cfg (k # ks) =
     (case cfg k of
        None \<Rightarrow> Inl (ConfigurationMissing k)
      | Some v \<Rightarrow> (case resolve_args cfg ks of
                     Inl e \<Rightarrow> Inl e
                   | Inr vs \<Rightarrow> Inr (toString v # vs)))"

definition resolve_launch :: "settings \<Rightarrow> daemon \<Rightarrow> launch_error + (path \<times> string list \<times> path)" where
  "resolve_launch cfg k =
     (case cfg (dir_key k) of
        None \<Rightarrow> Inl (ConfigurationMissing (dir_key k))
      | Some d \<Rightarrow>
          (case resolve_args cfg (arg_keys k) of
             Inl e \<Rightarrow> Inl e
           | Inr args \<Rightarrow> Inr (toString d @ exec_name k, args, toString d)))"

subsection \<open>State updates shared by the operations\<close>

text \<open>Every status transition notifies the presentation layer (\<open>onStatusChanged\<close>).\<close>

definition set_status :: "daemon \<Rightarrow> status \<Rightarrow> int option \<Rightarrow> sup \<Rightarrow> sup" where
  "set_status k x c s =
     s\<lparr>table := (table s)(k := (table s k)\<lparr>st := x\<rparr>),
       notified := notified s @ [StatusChanged k x c]\<rparr>"

definition send :: "os_request \<Rightarrow> sup \<Rightarrow> sup" where
  "send r s = s\<lparr>requests := requests s @ [r]\<rparr>"

text \<open>The process \<open>p\<close> of daemon \<open>k\<close> has gone: drop it, clear the handle, record the code.\<close>

definition reap :: "daemon \<Rightarrow> pid \<Rightarrow> int \<Rightarrow> status \<Rightarrow> sup \<Rightarrow> sup" where
  "reap k p c x s =
     set_status k x (Some c)
       (s\<lparr>live := drop_key p (live s),
          table := (table s)(k := (table s k)\<lparr>handle := None, last_exit := Some c\<rparr>)\<rparr>)"

subsection \<open>start\<close>

text \<open>
  \<open>start(kind)\<close>: a no-op on a running daemon; otherwise the status passes through
  \<open>Starting\<close>, the recipe is resolved, the OS is asked to create the process with the
  installation directory as working directory, and the daemon ends \<open>Running\<close> with the
  new handle, or \<open>Failed\<close> with the launch error.
\<close>

definition launch :: "os_env \<Rightarrow> settings \<Rightarrow> daemon \<Rightarrow> sup \<Rightarrow> (sup_error + unit) \<times> sup" where
  "launch env cfg k s =
     (case resolve_launch cfg k of
        Inl e \<Rightarrow> (Inl (LaunchFailure k e), set_status k Failed None s)
      | Inr (exe, args, wd) \<Rightarrow>
          (let p = next_pid s; s1 = send (Spawn k p exe args wd) (s\<lparr>next_pid := Suc p\<rparr>) in
           if \<not> file_exists env exe
           then (Inl (LaunchFailure k (ExecutableNotFound exe)), set_status k Failed None s1)
           else if \<not> create_allowed env exe
           then (Inl (LaunchFailure k (CreationDenied exe)), set_status k Failed None s1)
           else (Inr (),
                 set_status k Running None
                   (s1\<lparr>live := live s1 @ [(p, k)],
                       table := (table s1)(k := (table s1 k)\<lparr>handle := Some p\<rparr>)\<rparr>))))"

definition server_start :: "os_env \<Rightarrow> settings \<Rightarrow> daemon \<Rightarrow> sup \<Rightarrow> (sup_error + unit) \<times> sup" where
  "server_start env cfg k s =
     (if statusOf s k = Running then (Inr (), s)
      else launch env cfg k (set_status k Starting None s))"

subsection \<open>stop\<close>

text \<open>
  \<open>stop(kind)\<close>: a no-op on a stopped daemon. A daemon without a process (a failed
  launch) is just marked stopped. Otherwise the cooperative stop is sent (the shutdown
  client where the daemon has one, else a terminate signal), the supervisor waits at most
  \<open>stop_timeout_ms\<close>, and then force-kills. A process that survives the kill is a
  \<open>TerminationFailure\<close>: the status and handle are left as they were.
\<close>

definition soft_stop :: "settings \<Rightarrow> daemon \<Rightarrow> pid \<Rightarrow> os_request" where
  "soft_stop cfg k p =
     (case graceful_stop_client k of
        Some client \<Rightarrow> ClientShutdown k p (toString (settings_get cfg (dir_key k)) @ client)
      | None \<Rightarrow> Terminate k p)"

definition force_stop :: "os_env \<Rightarrow> daemon \<Rightarrow> pid \<Rightarrow> sup \<Rightarrow> (sup_error + unit) \<times> sup" where
  "force_stop env k p s =
     (let s1 = send (ForceKill k p) s in
      if killable env p then (Inr (), reap k p (exit_code env p) Stopped s1)
      else (Inl (TerminationFailure k), s1))"

definition server_stop :: "os_env \<Rightarrow> settings \<Rightarrow> daemon \<Rightarrow> sup \<Rightarrow> (sup_error + unit) \<times> sup" where
  "server_stop env cfg k s =
     (if statusOf s k = Stopped then (Inr (), s)
      else case handle (table s k) of
        None \<Rightarrow> (Inr (), set_status k Stopped None s)
      | Some p \<Rightarrow>
          (let s1 = send (soft_stop cfg k p) s in
           case exit_after_ms env p of
             Some t \<Rightarrow>
               if t \<le> stop_timeout_ms
               then (Inr (), reap k p (exit_code env p) Stopped (send (WaitExit k p t) s1))
               else force_stop env k p (send (WaitExit k p stop_timeout_ms) s1)
           | None \<Rightarrow> force_stop env k p (send (WaitExit k p stop_timeout_ms) s1)))"

subsection \<open>Exit notifications from the OS\<close>

text \<open>
  A child process that exits on its own is reported by the OS. Exit code 0 is a clean
  stop, any other code an abnormal exit that leaves the daemon \<open>Failed\<close>. A
  notification for a process the supervisor does not hold changes nothing.
\<close>

definition process_exited :: "pid \<Rightarrow> int \<Rightarrow> sup \<Rightarrow> sup" where
  "process_exited p c s =
     (case map_of (live s) p of
        None \<Rightarrow> s
      | Some k \<Rightarrow> reap k p c (if c = 0 then Stopped else Failed) s)"

text \<open>The daemon an OS request is about.\<close>

fun req_daemon :: "os_request \<Rightarrow> daemon" where
  "req_daemon (Spawn k _ _ _ _) = k"
| "req_daemon (ClientShutdown k _ _) = k"
| "req_daemon (Terminate k _) = k"
| "req_daemon (WaitExit k _ _) = k"
| "req_daemon (ForceKill k _) = k"

subsection \<open>Operations as data\<close>

subsection \<open>The invariant\<close>

text \<open>
  The supervisor's table and the OS process table agree: every live process belongs to
  the daemon whose handle names it, every handle names a live process of its daemon, a
  daemon has a handle exactly when it is \<open>Running\<close>, no daemon is left \<open>Starting\<close>
  between operations, process identifiers are fresh, and no daemon owns two processes.
\<close>

definition sup_inv :: "sup \<Rightarrow> bool" where
  "sup_inv s \<longleftrightarrow>
     distinct (map fst (live s)) \<and> distinct (map snd (live s)) \<and>
     (\<forall>(p, k) \<in> set (live s). handle (table s k) = Some p \<and> p < next_pid s) \<and>
     (\<forall>k. \<forall>p \<in> set_option (handle (table s k)). (p, k) \<in> set (live s)) \<and>
     (\<forall>k. (handle (table s k) \<noteq> None) = (st (table s k) = Running)) \<and>
     (\<forall>k. st (table s k) \<noteq> Starting)"

text \<open>
  Two further facts the supervisor keeps: every wait it sent is within the stop timeout,
  and the status the presentation layer last heard of for a daemon (its initial
  \<open>Stopped\<close> when it heard nothing) is the daemon's status.
\<close>

definition waits_bounded :: "os_request list \<Rightarrow> bool" where
  "waits_bounded rs = list_all (\<lambda>r. case r of WaitExit _ _ ms \<Rightarrow> ms \<le> stop_timeout_ms | _ \<Rightarrow> True) rs"

definition last_status :: "daemon \<Rightarrow> notification list \<Rightarrow> status" where
  "last_status k ns = fold (\<lambda>n x. case n of StatusChanged k' y _ \<Rightarrow> if k' = k then y else x) ns Stopped"

definition notes_consistent :: "sup \<Rightarrow> bool" where
  "notes_consistent s \<longleftrightarrow> (\<forall>k. last_status k (notified s) = st (table s k))"

definition sup_ok :: "sup \<Rightarrow> bool" where
  "sup_ok s \<longleftrightarrow> sup_inv s \<and> waits_bounded (requests s) \<and> notes_consistent s"

subsection \<open>Witness data\<close>

text \<open>An installation where every executable exists and every daemon stops within 200 ms.\<close>

definition demo_env :: os_env where
  "demo_env = \<lparr>file_exists = (\<lambda>_. True), create_allowed = (\<lambda>_. True),
     exit_after_ms = (\<lambda>_. Some 200), killable = (\<lambda>_. True), exit_code = (\<lambda>_. 0)\<rparr>"

definition demo_cfg :: settings where
  "demo_cfg = [''paths/nginx'' \<mapsto> QString ''bin/nginx'', ''nginx/config'' \<mapsto> QString ''bin/nginx/conf/nginx.conf'',
     ''paths/php'' \<mapsto> QString ''bin/php'', ''php/config'' \<mapsto> QString ''bin/php/php.ini'',
     ''paths/mariadb'' \<mapsto> QString ''bin/mariadb'', ''mariadb/config'' \<mapsto> QString ''bin/mariadb/my.ini'',
     ''paths/mongodb'' \<mapsto> QString ''bin/mongodb'', ''paths/memcached'' \<mapsto> QString ''bin/memcached'']"

subsection \<open>Field lemmas of the shared updates\<close>

lemma set_status_fields [simp]:
  "table (set_status k x c s) = (table s)(k := (table s k)\<lparr>st := x\<rparr>)"
  "live (set_status k x c s) = live s"
  "next_pid (set_status k x c s) = next_pid s"
  "requests (set_status k x c s) = requests s"
  "notified (set_status k x c s) = notified s @ [StatusChanged k x c]"
  by (simp_all add: set_status_def)

lemma send_fields [simp]:
  "table (send r s) = table s" "live (send r s) = live s" "next_pid (send r s) = next_pid s"
  "requests (send r s) = requests s @ [r]" "notified (send r s) = notified s"
  by (simp_all add: send_def)

lemma reap_fields [simp]:
  "table (reap k p c x s) = (table s)(k := (table s k)\<lparr>handle := None, last_exit := Some c, st := x\<rparr>)"
  "live (reap k p c x s) = drop_key p (live s)"
  "next_pid (reap k p c x s) = next_pid s"
  "requests (reap k p c x s) = requests s"
  "notified (reap k p c x s) = notified s @ [StatusChanged k x (Some c)]"
  by (simp_all add: reap_def)

lemma statusOf_set_status [simp]:
  "statusOf (set_status k x c s) k' = (if k' = k then x else statusOf s k')"
  by (simp add: statusOf_def)

lemma statusOf_reap [simp]:
  "statusOf (reap k p c x s) k' = (if k' = k then x else statusOf s k')"
  by (simp add: statusOf_def)

lemma statusOf_send [simp]: "statusOf (send r s) k = statusOf s k"
  by (simp add: statusOf_def)

subsection \<open>Invariant preservation\<close>

lemma sup_inv_init: "sup_inv init_sup"
  by (simp add: sup_inv_def init_sup_def)

lemma inv_not_running_no_handle:
  "sup_inv s \<Longrightarrow> st (table s k) \<noteq> Running \<Longrightarrow> handle (table s k) = None"
  by (auto simp: sup_inv_def)

lemma inv_handle_iff_running:
  "sup_inv s \<Longrightarrow> (handle (table s k) \<noteq> None) = (st (table s k) = Running)"
  by (simp add: sup_inv_def)

lemma inv_not_starting: "sup_inv s \<Longrightarrow> st (table s k) \<noteq> Starting"
  by (simp add: sup_inv_def)

lemma inv_handle_live:
  "sup_inv s \<Longrightarrow> handle (table s k) = Some p \<Longrightarrow> (p, k) \<in> set (live s)"
  by (force simp: sup_inv_def)

lemma inv_no_handle_not_live:
  "sup_inv s \<Longrightarrow> handle (table s k) = None \<Longrightarrow> k \<notin> snd ` set (live s)"
  by (force simp: sup_inv_def)

lemma inv_live_pid:
  "sup_inv s \<Longrightarrow> handle (table s k) = Some p \<Longrightarrow> (a, k) \<in> set (live s) \<Longrightarrow> a = p"
  by (force simp: sup_inv_def)

lemma sup_inv_send [simp]: "sup_inv (send r s) = sup_inv s"
  by (simp add: sup_inv_def send_def)

lemma distinct_fst_same_pid:
  "distinct (map fst xs) \<Longrightarrow> (p, a) \<in> set xs \<Longrightarrow> (p, b) \<in> set xs \<Longrightarrow> a = b"
  by (metis eq_key_imp_eq_value)

lemma launch_inv [inv_intros]:
  assumes "sup_inv s" "st (table s k) \<noteq> Running"
  shows "sup_inv (snd (launch env cfg k (set_status k Starting None s)))"
proof -
  have "handle (table s k) = None" using assms by (rule inv_not_running_no_handle)
  then show ?thesis using assms
    unfolding launch_def Let_def
    by (simp split: sum.split prod.split) (auto simp: sup_inv_def split: option.splits)
qed

lemma reap_inv [inv_intros]:
  assumes "sup_inv s" "handle (table s k) = Some p" "x \<noteq> Running" "x \<noteq> Starting"
  shows "sup_inv (reap k p c x s)"
proof -
  have "(p, k) \<in> set (live s)" using assms(1,2) by (rule inv_handle_live)
  then show ?thesis using assms
    by (auto simp: sup_inv_def split: option.splits dest: distinct_fst_same_pid)
qed

lemma force_stop_inv [inv_intros]:
  "sup_inv s \<Longrightarrow> handle (table s k) = Some p \<Longrightarrow> sup_inv (snd (force_stop env k p s))"
  by (simp add: force_stop_def Let_def reap_inv)

lemma server_start_inv [inv_intros]: "sup_inv s \<Longrightarrow> sup_inv (snd (server_start env cfg k s))"
  using launch_inv by (simp add: server_start_def statusOf_def)

lemma server_stop_inv [inv_intros]:
  assumes "sup_inv s"
  shows "sup_inv (snd (server_stop env cfg k s))"
proof (cases "statusOf s k = Stopped")
  case True
  then show ?thesis using assms by (simp add: server_stop_def)
next
  case False
  show ?thesis
  proof (cases "handle (table s k)")
    case None
    with assms False show ?thesis
      by (auto simp: server_stop_def sup_inv_def statusOf_def split: option.splits)
  next
    case (Some p)
    with assms False show ?thesis
      by (auto simp: server_stop_def Let_def reap_inv force_stop_inv split: option.split)
  qed
qed

lemma process_exited_inv [inv_intros]:
  assumes "sup_inv s"
  shows "sup_inv (process_exited p c s)"
proof (cases "map_of (live s) p")
  case None
  then show ?thesis using assms by (simp add: process_exited_def)
next
  case (Some k)
  then have "(p, k) \<in> set (live s)" by (rule map_of_SomeD)
  with assms have "handle (table s k) = Some p" by (auto simp: sup_inv_def)
  with assms Some show ?thesis by (simp add: process_exited_def reap_inv)
qed

subsection \<open>Locality and results of the operations\<close>

text \<open>An operation on daemon \<open>k\<close> touches only \<open>k\<close>'s entry, and its outcome depends only on that entry.\<close>

lemma server_start_other [simp]:
  "k' \<noteq> k \<Longrightarrow> table (snd (server_start env cfg k s)) k' = table s k'"
  by (simp add: server_start_def launch_def Let_def split: sum.split prod.split)

lemma server_stop_other [simp]:
  "k' \<noteq> k \<Longrightarrow> table (snd (server_stop env cfg k s)) k' = table s k'"
  by (simp add: server_stop_def force_stop_def Let_def split: option.split)

lemma server_stop_local:
  assumes "table s k = table s' k"
  shows "fst (server_stop env cfg k s) = fst (server_stop env cfg k s') \<and>
         table (snd (server_stop env cfg k s)) k = table (snd (server_stop env cfg k s')) k"
  using assms by (simp add: server_stop_def force_stop_def statusOf_def Let_def split: option.split)

lemma server_start_status:
  "statusOf (snd (server_start env cfg k s)) k \<in> {Running, Failed}"
  by (simp add: server_start_def launch_def Let_def split: sum.split prod.split)

lemma server_start_success:
  "resolve_launch cfg k = Inr (exe, args, wd) \<Longrightarrow> file_exists env exe \<Longrightarrow> create_allowed env exe \<Longrightarrow>
   statusOf (snd (server_start env cfg k s)) k = Running"
  by (simp add: server_start_def launch_def Let_def)

lemma server_stop_Inr:
  assumes "sup_inv s" and "fst (server_stop env cfg k s) = Inr ()"
  shows "statusOf (snd (server_stop env cfg k s)) k = Stopped \<and>
         handle (table (snd (server_stop env cfg k s)) k) = None \<and>
         k \<notin> snd ` set (live (snd (server_stop env cfg k s)))"
proof (cases "statusOf s k = Stopped")
  case True
  then have "handle (table s k) = None"
    using assms(1) by (simp add: inv_not_running_no_handle statusOf_def)
  with True assms(1) show ?thesis by (simp add: server_stop_def inv_no_handle_not_live)
next
  case False
  show ?thesis
  proof (cases "handle (table s k)")
    case None
    with False assms(1) show ?thesis by (simp add: server_stop_def inv_no_handle_not_live)
  next
    case (Some p)
    with False assms show ?thesis
      by (auto simp: server_stop_def force_stop_def Let_def
          split: option.splits if_splits dest: inv_live_pid)
  qed
qed

lemma server_stop_Inl:
  assumes "fst (server_stop env cfg k s) = Inl e"
  shows "e = TerminationFailure k \<and> table (snd (server_stop env cfg k s)) = table s \<and>
         live (snd (server_stop env cfg k s)) = live s \<and>
         notified (snd (server_stop env cfg k s)) = notified s"
  using assms by (auto simp: server_stop_def force_stop_def Let_def split: option.splits if_splits)

lemma server_stop_killable:
  "killable env p \<Longrightarrow> handle (table s k) = Some p \<Longrightarrow> fst (server_stop env cfg k s) = Inr ()"
  by (simp add: server_stop_def force_stop_def Let_def split: option.split)

lemma server_stop_stopped:
  "statusOf s k = Stopped \<Longrightarrow> server_stop env cfg k s = (Inr (), s)"
  by (simp add: server_stop_def)

text \<open>Every request an operation on \<open>k\<close> sends is about \<open>k\<close>.\<close>

lemma server_stop_requests:
  "\<exists>rs. requests (snd (server_stop env cfg k s)) = requests s @ rs \<and> list_all (\<lambda>r. req_daemon r = k) rs"
  by (cases k) (auto simp: server_stop_def force_stop_def soft_stop_def Let_def split: option.split)

lemma server_start_requests:
  "\<exists>rs. requests (snd (server_start env cfg k s)) = requests s @ rs \<and> list_all (\<lambda>r. req_daemon r = k) rs"
  by (auto simp: server_start_def launch_def Let_def split: sum.split prod.split)

subsection \<open>The further invariants\<close>

lemma last_status_append [simp]:
  "last_status k (ns @ ms) =
     fold (\<lambda>n x. case n of StatusChanged k' y _ \<Rightarrow> if k' = k then y else x) ms (last_status k ns)"
  by (simp add: last_status_def)

lemma waits_bounded_simps [simp]:
  "waits_bounded []"
  "waits_bounded (r # rs) \<longleftrightarrow>
     (case r of WaitExit _ _ ms \<Rightarrow> ms \<le> stop_timeout_ms | _ \<Rightarrow> True) \<and> waits_bounded rs"
  "waits_bounded (rs @ ms) \<longleftrightarrow> waits_bounded rs \<and> waits_bounded ms"
  by (simp_all add: waits_bounded_def)

lemma sup_ok_init: "sup_ok init_sup"
  using sup_inv_init
  by (simp add: sup_ok_def waits_bounded_def notes_consistent_def last_status_def init_sup_def)

lemma server_start_ok [inv_intros]: "sup_ok s \<Longrightarrow> sup_ok (snd (server_start env cfg k s))"
  unfolding sup_ok_def using server_start_inv
  by (auto simp: server_start_def launch_def Let_def notes_consistent_def
      split: sum.split prod.split)

lemma server_stop_ok [inv_intros]: "sup_ok s \<Longrightarrow> sup_ok (snd (server_stop env cfg k s))"
  unfolding sup_ok_def using server_stop_inv
  by (auto simp: server_stop_def force_stop_def soft_stop_def Let_def notes_consistent_def stop_timeout_ms_def
      split: option.split sum.split)

lemma process_exited_ok [inv_intros]: "sup_ok s \<Longrightarrow> sup_ok (process_exited p c s)"
  unfolding sup_ok_def using process_exited_inv
  by (auto simp: process_exited_def notes_consistent_def split: option.split)

end
