(* ===== verification/Tray.thy ===== *)
theory Tray
  imports Supervisor
begin

text \<open>
  The tray application, \<open>src/src/tray.cpp\<close>: the \<open>Tray\<close> object holds the settings,
  the \<open>Servers\<close> supervisor and its context menu. Its constructor builds the menu and,
  when \<open>global/autostartdaemons\<close> is set, runs the autostart policy; its destructor
  stops all daemons when \<open>global/stopdaemonsonquit\<close> is set. The menu's actions are
  slots: start all, stop all, the host manager dialog, three web links and quit. Icons,
  fonts and the tool tip are presentation only and are not modelled; \<open>tr()\<close> is the
  identity on the untranslated labels.
\<close>

datatype slot = StartAll | StopAll | OpenHostManager | GoToWebinterface | GoToReportIssue
  | GoToWebsiteHelp | Quit

datatype menu_entry = MTitle string | MSeparator | MIp string | MAction string slot
  | MSubmenu daemon

text \<open>An address entry's IP, \<open>entry.ip()\<close>, by its protocol and the text
  \<open>address.toString()\<close> gives for it; Qt's formatting of addresses is library code, not
  this repository's, so the text is taken as it comes.\<close>

datatype host_address = IPv4 string | IPv6 string

record net_iface =
  is_up :: bool
  is_running :: bool
  is_loopback :: bool
  address_entries :: "host_address list"

record tray =
  settings :: settings
  servers :: sup
  context_menu :: "menu_entry list option"
  opened_urls :: "string list"
  alive :: bool

subsection \<open>The context menu\<close>

text \<open>The IP section: every IPv4 address of every interface that is up, running and not loopback.\<close>

definition iface_listed :: "net_iface \<Rightarrow> bool" where
  "iface_listed i \<longleftrightarrow> is_up i \<and> is_running i \<and> \<not> is_loopback i"

fun address_entry :: "host_address \<Rightarrow> menu_entry list" where
  "address_entry (IPv4 a) = [MIp (''IP: '' @ a)]"
| "address_entry (IPv6 _) = []"

definition ip_entries :: "net_iface list \<Rightarrow> menu_entry list" where
  "ip_entries ifs =
     concat (map (\<lambda>i. if iface_listed i then concat (map address_entry (address_entries i)) else []) ifs)"

text \<open>\<open>servers->servers()\<close>: one submenu per daemon, in the supervisor's order.\<close>

definition server_list :: "daemon list" where
  "server_list = [Nginx, Php, MariaDb, MongoDb, Memcached]"

definition tray_menu_entries :: "string \<Rightarrow> net_iface list \<Rightarrow> menu_entry list" where
  "tray_menu_entries version ifs =
     [MTitle (''WPN-XM '' @ version), MSeparator] @ ip_entries ifs @
     [MSeparator, MAction ''Start All'' StartAll, MAction ''Stop All'' StopAll, MSeparator] @
     map MSubmenu server_list @
     [MSeparator, MAction ''Manage Hosts'' OpenHostManager, MAction ''Webinterface'' GoToWebinterface,
      MSeparator, MAction ''&Report Bug'' GoToReportIssue, MAction ''&Help'' GoToWebsiteHelp,
      MAction ''&Quit'' Quit]"

text \<open>
  \<open>createTrayMenu\<close>: an existing context menu is cleared, otherwise a new one is made;
  then the entries are added. \<open>version\<close> is \<open>APP_VERSION\<close> of \<open>version.h\<close>.
\<close>

definition createTrayMenu :: "string \<Rightarrow> net_iface list \<Rightarrow> tray \<Rightarrow> tray" where
  "createTrayMenu version ifs t =
     (let base = (case context_menu t of Some _ \<Rightarrow> [] | None \<Rightarrow> [])
      in t\<lparr>context_menu := Some (base @ tray_menu_entries version ifs)\<rparr>)"

subsection \<open>Slots\<close>

definition goToWebinterface :: "tray \<Rightarrow> tray" where
  "goToWebinterface t = t\<lparr>opened_urls := opened_urls t @ [''http://localhost/webinterface/'']\<rparr>"

definition goToReportIssue :: "tray \<Rightarrow> tray" where
  "goToReportIssue t = t\<lparr>opened_urls := opened_urls t @ [''https://github.com/WPN-XM/WPN-XM/issues/'']\<rparr>"

definition goToWebsiteHelp :: "tray \<Rightarrow> tray" where
  "goToWebsiteHelp t = t\<lparr>opened_urls := opened_urls t @
     [''https://github.com/WPN-XM/WPN-XM/wiki/Using-the-Server-Control-Panel'']\<rparr>"

text \<open>A call \<open>servers->startX()\<close> or \<open>servers->stopX()\<close>; the tray ignores what it reports.\<close>

definition call_start :: "os_env \<Rightarrow> daemon \<Rightarrow> tray \<Rightarrow> tray" where
  "call_start env k t = t\<lparr>servers := snd (server_start env (settings t) k (servers t))\<rparr>"

definition call_stop :: "os_env \<Rightarrow> daemon \<Rightarrow> tray \<Rightarrow> tray" where
  "call_stop env k t = t\<lparr>servers := snd (server_stop env (settings t) k (servers t))\<rparr>"

definition autostartDaemons :: "os_env \<Rightarrow> tray \<Rightarrow> tray" where
  "autostartDaemons env t0 =
     (let t1 = (if flag (settings t0) ''autostart/nginx'' then call_start env Nginx t0 else t0);
          t2 = (if flag (settings t1) ''autostart/php'' then call_start env Php t1 else t1);
          t3 = (if flag (settings t2) ''autostart/mariadb'' then call_start env MariaDb t2 else t2);
          t4 = (if flag (settings t3) ''autostart/mongodb'' then call_start env MongoDb t3 else t3)
      in if flag (settings t4) ''autostart/memcached'' then call_start env Memcached t4 else t4)"

definition startAllDaemons :: "os_env \<Rightarrow> tray \<Rightarrow> tray" where
  "startAllDaemons env t =
     call_start env Memcached (call_start env MongoDb (call_start env MariaDb
       (call_start env Php (call_start env Nginx t))))"

definition stopAllDaemons :: "os_env \<Rightarrow> tray \<Rightarrow> tray" where
  "stopAllDaemons env t =
     call_stop env Memcached (call_stop env MongoDb (call_stop env Nginx
       (call_stop env Php (call_stop env MariaDb t))))"

subsection \<open>Construction and destruction\<close>

definition tray_init :: "os_env \<Rightarrow> string \<Rightarrow> net_iface list \<Rightarrow> settings \<Rightarrow> tray" where
  "tray_init env version ifs cfg =
     (let t = createTrayMenu version ifs
                \<lparr>settings = cfg, servers = init_sup, context_menu = None, opened_urls = [], alive = True\<rparr>
      in if flag (settings t) ''global/autostartdaemons'' then autostartDaemons env t else t)"

definition tray_destroy :: "os_env \<Rightarrow> tray \<Rightarrow> tray" where
  "tray_destroy env t =
     (let t' = (if flag (settings t) ''global/stopdaemonsonquit'' then stopAllDaemons env t else t)
      in t'\<lparr>alive := False\<rparr>)"

text \<open>Triggering a menu action runs its slot; \<open>&Quit\<close> ends the application, which destroys the tray.\<close>

text \<open>\<open>Tray::openHostManagerDialog\<close> runs the modal \<open>HostsManagerDialog\<close>, which edits the
  system's hosts file (its class is not under \<open>src/\<close>); it leaves the tray's state as it was.\<close>

definition openHostManagerDialog :: "tray \<Rightarrow> tray" where
  "openHostManagerDialog t = t"

fun trigger :: "os_env \<Rightarrow> slot \<Rightarrow> tray \<Rightarrow> tray" where
  "trigger env StartAll t = startAllDaemons env t"
| "trigger env StopAll t = stopAllDaemons env t"
| "trigger env OpenHostManager t = openHostManagerDialog t"
| "trigger env GoToWebinterface t = goToWebinterface t"
| "trigger env GoToReportIssue t = goToReportIssue t"
| "trigger env GoToWebsiteHelp t = goToWebsiteHelp t"
| "trigger env Quit t = tray_destroy env t"

text \<open>Witness data: a tray over the demo installation, before its menu and autostart.\<close>

definition demo_tray :: tray where
  "demo_tray = \<lparr>settings = demo_cfg, servers = init_sup, context_menu = None, opened_urls = [], alive = True\<rparr>"

subsection \<open>Call lemmas\<close>

lemma call_start_fields [simp]:
  "servers (call_start env k t) = snd (server_start env (settings t) k (servers t))"
  "settings (call_start env k t) = settings t"
  "context_menu (call_start env k t) = context_menu t"
  "opened_urls (call_start env k t) = opened_urls t"
  "alive (call_start env k t) = alive t"
  by (simp_all add: call_start_def)

lemma call_stop_fields [simp]:
  "servers (call_stop env k t) = snd (server_stop env (settings t) k (servers t))"
  "settings (call_stop env k t) = settings t"
  "context_menu (call_stop env k t) = context_menu t"
  "opened_urls (call_stop env k t) = opened_urls t"
  "alive (call_stop env k t) = alive t"
  by (simp_all add: call_stop_def)

text \<open>
  C1. Starting a daemon that is already running is a no-op: the tray's call
  \<open>servers->startX()\<close> spawns nothing, sends nothing and leaves every field as it was.
\<close>

theorem start_running_noop:
  assumes "statusOf (servers t) k = Running"
  shows "call_start env k t = t"
  using assms by (simp add: call_start_def server_start_def)

theorem start_running_noop_witness:
  "statusOf (servers (call_start demo_env Nginx demo_tray)) Nginx = Running \<and>
   call_start demo_env Nginx (call_start demo_env Nginx demo_tray) = call_start demo_env Nginx demo_tray"
proof -
  have h: "statusOf (servers (call_start demo_env Nginx demo_tray)) Nginx = Running"
    by code_simp
  show ?thesis using h start_running_noop [OF h] by simp
qed

text \<open>
  C2. Stopping a daemon that is already stopped is a no-op: no termination request is
  issued and the tray is unchanged.
\<close>

theorem stop_stopped_noop:
  assumes "statusOf (servers t) k = Stopped"
  shows "call_stop env k t = t"
  using assms by (simp add: call_stop_def server_stop_def)

theorem stop_stopped_noop_witness:
  "statusOf (servers demo_tray) Php = Stopped \<and> call_stop demo_env Php demo_tray = demo_tray"
proof -
  have h: "statusOf (servers demo_tray) Php = Stopped"
    by (simp add: demo_tray_def init_sup_def statusOf_def)
  show ?thesis using h stop_stopped_noop [OF h] by simp
qed

subsection \<open>The context menu\<close>

lemma createTrayMenu_eq:
  "createTrayMenu v ifs t = t\<lparr>context_menu := Some (tray_menu_entries v ifs)\<rparr>"
  by (cases "context_menu t") (simp_all add: createTrayMenu_def)

lemma MIp_address_entry:
  "MIp x \<in> set (address_entry a) \<longleftrightarrow> (\<exists>w. a = IPv4 w \<and> x = ''IP: '' @ w)"
  by (cases a) auto

text \<open>
  C23. The IP section of the tray menu lists exactly the IPv4 addresses of the network
  interfaces that are up, running and not loopback, each as \<open>IP: \<close> followed by the address's text.
\<close>

theorem menu_ip_entries:
  "MIp x \<in> set (the (context_menu (createTrayMenu v ifs t))) \<longleftrightarrow>
   (\<exists>i w. i \<in> set ifs \<and> is_up i \<and> is_running i \<and> \<not> is_loopback i \<and>
          IPv4 w \<in> set (address_entries i) \<and> x = ''IP: '' @ w)"
  by (auto simp: createTrayMenu_eq tray_menu_entries_def ip_entries_def iface_listed_def
      server_list_def MIp_address_entry split: if_splits)

text \<open>
  C24. Rebuilding the tray menu replaces it: because \<open>createTrayMenu\<close> clears an
  existing context menu, building it twice gives the same menu as building it once.
\<close>

theorem createTrayMenu_idempotent:
  "createTrayMenu v ifs (createTrayMenu v ifs t) = createTrayMenu v ifs t"
  by (simp add: createTrayMenu_def split: option.split)

end
