(* ===== verification/Calls.thy ===== *)
theory Calls
  imports Tray
begin

text \<open>
  What one call of the tray into the supervisor does, on every branch: a start that
  spawns, a start that fails for a missing executable or a missing configuration key,
  a stop that ends the process, a stop whose process cannot be killed, and the
  cooperative stop request each daemon gets first. The launch recipe the start resolves
  is characterised from the descriptor set.
\<close>

subsection \<open>Resolving the launch recipe\<close>

lemma resolve_args_Inl:
  "resolve_args cfg ks = Inl e \<Longrightarrow> \<exists>a \<in> set ks. cfg a = None \<and> e = ConfigurationMissing a"
  by (induction ks) (auto split: option.splits sum.splits)

lemma resolve_args_Inr:
  "resolve_args cfg ks = Inr vs \<longleftrightarrow>
     list_all (\<lambda>a. cfg a \<noteq> None) ks \<and> vs = map (\<lambda>a. toString (settings_get cfg a)) ks"
  by (induction ks arbitrary: vs) (auto simp: settings_get_def list_all_iff split: option.splits sum.splits
      dest!: resolve_args_Inl)

text \<open>
  C5. The start of a daemon resolves its recipe from the descriptor set: it succeeds
  exactly when the installation directory key and every argument key are present, and
  then the program is the directory with the executable name appended, the arguments
  are the argument keys' values in order, and the working directory is the directory.
\<close>

theorem resolve_launch_recipe:
  "resolve_launch cfg k = Inr (exe, args, wd) \<longleftrightarrow>
     cfg (dir_key k) \<noteq> None \<and> list_all (\<lambda>a. cfg a \<noteq> None) (arg_keys k) \<and>
     exe = toString (settings_get cfg (dir_key k)) @ exec_name k \<and>
     args = map (\<lambda>a. toString (settings_get cfg a)) (arg_keys k) \<and>
     wd = toString (settings_get cfg (dir_key k))"
  by (auto simp: resolve_launch_def resolve_args_Inr settings_get_def list_all_iff
      split: option.splits sum.splits dest!: resolve_args_Inl)

subsection \<open>start\<close>

text \<open>
  C3. A start of a daemon that is not running, whose recipe resolves and whose
  executable exists and may be created, leaves it \<open>Running\<close> with a handle on a fresh
  process that the OS table records, after exactly one \<open>Spawn\<close> request with the
  resolved program, arguments and working directory.
\<close>

theorem start_spawns:
  assumes "statusOf (servers t) k \<noteq> Running"
    and "resolve_launch (settings t) k = Inr (exe, args, wd)"
    and "file_exists env exe" and "create_allowed env exe"
  shows "statusOf (servers (call_start env k t)) k = Running \<and>
         handle (table (servers (call_start env k t)) k) = Some (next_pid (servers t)) \<and>
         (next_pid (servers t), k) \<in> set (live (servers (call_start env k t))) \<and>
         requests (servers (call_start env k t)) =
           requests (servers t) @ [Spawn k (next_pid (servers t)) exe args wd]"
  using assms by (simp add: server_start_def launch_def statusOf_def Let_def)

theorem start_spawns_witness:
  "statusOf (servers demo_tray) Php \<noteq> Running \<and>
   resolve_launch (settings demo_tray) Php = Inr (''bin/php/php-cgi.exe'', [''bin/php/php.ini''], ''bin/php'') \<and>
   file_exists demo_env ''bin/php/php-cgi.exe'' \<and> create_allowed demo_env ''bin/php/php-cgi.exe'' \<and>
   statusOf (servers (call_start demo_env Php demo_tray)) Php = Running"
proof -
  have h1: "statusOf (servers demo_tray) Php \<noteq> Running" by code_simp
  have h2: "resolve_launch (settings demo_tray) Php =
      Inr (''bin/php/php-cgi.exe'', [''bin/php/php.ini''], ''bin/php'')" by code_simp
  have h3: "file_exists demo_env ''bin/php/php-cgi.exe''" "create_allowed demo_env ''bin/php/php-cgi.exe''"
    by (simp_all add: demo_env_def)
  show ?thesis using h1 h2 h3 start_spawns [OF h1 h2 h3] by simp
qed

text \<open>
  C4. A start whose executable does not exist reports \<open>LaunchFailure\<close> with
  \<open>ExecutableNotFound\<close>, leaves the daemon \<open>Failed\<close> without a handle, and creates
  no process; it does not abort the caller.
\<close>

theorem start_missing_executable:
  assumes "sup_inv (servers t)" and "statusOf (servers t) k \<noteq> Running"
    and "resolve_launch (settings t) k = Inr (exe, args, wd)" and "\<not> file_exists env exe"
  shows "fst (server_start env (settings t) k (servers t)) = Inl (LaunchFailure k (ExecutableNotFound exe)) \<and>
         statusOf (servers (call_start env k t)) k = Failed \<and>
         handle (table (servers (call_start env k t)) k) = None \<and>
         live (servers (call_start env k t)) = live (servers t)"
proof -
  have "handle (table (servers t) k) = None"
    using assms(1,2) by (simp add: inv_not_running_no_handle statusOf_def)
  then show ?thesis using assms(2-4) by (simp add: server_start_def launch_def statusOf_def Let_def)
qed

text \<open>An installation whose MongoDB executable is missing.\<close>

definition demo_env_no_mongo :: os_env where
  "demo_env_no_mongo = demo_env\<lparr>file_exists := (\<lambda>f. f \<noteq> ''bin/mongodb/mongod.exe'')\<rparr>"

theorem start_missing_executable_witness:
  "sup_inv (servers demo_tray) \<and> statusOf (servers demo_tray) MongoDb \<noteq> Running \<and>
   resolve_launch (settings demo_tray) MongoDb = Inr (''bin/mongodb/mongod.exe'', [], ''bin/mongodb'') \<and>
   \<not> file_exists demo_env_no_mongo ''bin/mongodb/mongod.exe'' \<and>
   statusOf (servers (call_start demo_env_no_mongo MongoDb demo_tray)) MongoDb = Failed"
proof -
  have h1: "sup_inv (servers demo_tray)" by (simp add: demo_tray_def sup_inv_init)
  have h2: "statusOf (servers demo_tray) MongoDb \<noteq> Running" by code_simp
  have h3: "resolve_launch (settings demo_tray) MongoDb = Inr (''bin/mongodb/mongod.exe'', [], ''bin/mongodb'')"
    by code_simp
  have h4: "\<not> file_exists demo_env_no_mongo ''bin/mongodb/mongod.exe''"
    by (simp add: demo_env_no_mongo_def)
  show ?thesis using h1 h2 h3 h4 start_missing_executable [OF h1 h2 h3 h4] by simp
qed

text \<open>
  C6. A start whose installation directory is not configured reports
  \<open>LaunchFailure\<close> with \<open>ConfigurationMissing\<close> of the directory key, leaves the
  daemon \<open>Failed\<close>, and sends no request to the OS.
\<close>

theorem start_config_missing:
  assumes "statusOf (servers t) k \<noteq> Running" and "settings t (dir_key k) = None"
  shows "fst (server_start env (settings t) k (servers t)) =
           Inl (LaunchFailure k (ConfigurationMissing (dir_key k))) \<and>
         statusOf (servers (call_start env k t)) k = Failed \<and>
         requests (servers (call_start env k t)) = requests (servers t) \<and>
         live (servers (call_start env k t)) = live (servers t)"
  using assms by (simp add: server_start_def launch_def resolve_launch_def statusOf_def)

theorem start_config_missing_witness:
  "statusOf (servers (demo_tray\<lparr>settings := Map.empty\<rparr>)) Nginx \<noteq> Running \<and>
   settings (demo_tray\<lparr>settings := Map.empty\<rparr>) (dir_key Nginx) = None \<and>
   statusOf (servers (call_start demo_env Nginx (demo_tray\<lparr>settings := Map.empty\<rparr>))) Nginx = Failed"
proof -
  have h1: "statusOf (servers (demo_tray\<lparr>settings := Map.empty\<rparr>)) Nginx \<noteq> Running"
    by (simp add: demo_tray_def init_sup_def statusOf_def)
  have h2: "settings (demo_tray\<lparr>settings := Map.empty\<rparr>) (dir_key Nginx) = None" by simp
  show ?thesis using h1 h2 start_config_missing [OF h1 h2] by simp
qed

subsection \<open>stop\<close>

text \<open>
  C7. A stop that reports success leaves the daemon \<open>Stopped\<close>, without a handle, and
  with no process of it left in the OS table.
\<close>

theorem stop_ends_process:
  assumes "sup_inv (servers t)" and "fst (server_stop env (settings t) k (servers t)) = Inr ()"
  shows "statusOf (servers (call_stop env k t)) k = Stopped \<and>
         handle (table (servers (call_stop env k t)) k) = None \<and>
         k \<notin> snd ` set (live (servers (call_stop env k t)))"
  using server_stop_Inr [OF assms] by simp

theorem stop_ends_process_witness:
  "sup_inv (servers (call_start demo_env Nginx demo_tray)) \<and>
   fst (server_stop demo_env (settings (call_start demo_env Nginx demo_tray)) Nginx
          (servers (call_start demo_env Nginx demo_tray))) = Inr () \<and>
   statusOf (servers (call_stop demo_env Nginx (call_start demo_env Nginx demo_tray))) Nginx = Stopped"
proof -
  have h1: "sup_inv (servers (call_start demo_env Nginx demo_tray))"
    by (simp add: demo_tray_def sup_inv_init server_start_inv)
  have h2: "fst (server_stop demo_env (settings (call_start demo_env Nginx demo_tray)) Nginx
          (servers (call_start demo_env Nginx demo_tray))) = Inr ()" by code_simp
  show ?thesis using h1 h2 stop_ends_process [OF h1 h2] by simp
qed

text \<open>
  C8. A process that neither exits within the timeout nor dies when killed makes the
  stop report \<open>TerminationFailure\<close>; the daemon's status, handle and the OS table are
  left as they were and no status change is notified, so the status never claims a stop
  that did not happen. The requests sent are the cooperative stop, the bounded wait and
  the forced kill.
\<close>

theorem stop_unkillable_keeps_state:
  assumes "statusOf (servers t) k \<noteq> Stopped" and "handle (table (servers t) k) = Some p"
    and "\<not> killable env p"
    and "case exit_after_ms env p of None \<Rightarrow> True | Some ms \<Rightarrow> stop_timeout_ms < ms"
  shows "fst (server_stop env (settings t) k (servers t)) = Inl (TerminationFailure k) \<and>
         table (servers (call_stop env k t)) = table (servers t) \<and>
         live (servers (call_stop env k t)) = live (servers t) \<and>
         notified (servers (call_stop env k t)) = notified (servers t) \<and>
         requests (servers (call_stop env k t)) =
           requests (servers t) @ [soft_stop (settings t) k p, WaitExit k p stop_timeout_ms, ForceKill k p]"
  using assms by (auto simp: server_stop_def force_stop_def Let_def split: option.splits)

definition demo_env_stuck :: os_env where
  "demo_env_stuck = demo_env\<lparr>exit_after_ms := (\<lambda>_. None), killable := (\<lambda>_. False)\<rparr>"

theorem stop_unkillable_keeps_state_witness:
  "statusOf (servers (call_start demo_env MariaDb demo_tray)) MariaDb \<noteq> Stopped \<and>
   handle (table (servers (call_start demo_env MariaDb demo_tray)) MariaDb) = Some 1 \<and>
   \<not> killable demo_env_stuck 1 \<and>
   (case exit_after_ms demo_env_stuck 1 of None \<Rightarrow> True | Some ms \<Rightarrow> stop_timeout_ms < ms) \<and>
   statusOf (servers (call_stop demo_env_stuck MariaDb (call_start demo_env MariaDb demo_tray))) MariaDb = Running"
proof -
  have h1: "statusOf (servers (call_start demo_env MariaDb demo_tray)) MariaDb \<noteq> Stopped" by code_simp
  have h2: "handle (table (servers (call_start demo_env MariaDb demo_tray)) MariaDb) = Some 1" by code_simp
  have h3: "\<not> killable demo_env_stuck 1" by (simp add: demo_env_stuck_def demo_env_def)
  have h4: "case exit_after_ms demo_env_stuck 1 of None \<Rightarrow> True | Some ms \<Rightarrow> stop_timeout_ms < ms"
    by (simp add: demo_env_stuck_def demo_env_def)
  have h5: "statusOf (servers (call_start demo_env MariaDb demo_tray)) MariaDb = Running" by code_simp
  show ?thesis using h1 h2 h3 h4 h5 stop_unkillable_keeps_state [OF h1 h2 h3 h4]
    by (simp add: statusOf_def)
qed

text \<open>
  C9. The stop of a running daemon first sends the cooperative stop, which for MariaDB
  is its own shutdown client (\<open>MARIADB_CLIENT_EXEC\<close> in its installation directory) and
  for every other daemon a terminate signal; it then waits at most the 3 s timeout and
  escalates, if at all, only to a forced kill.
\<close>

theorem stop_request_sequence:
  assumes "statusOf (servers t) k \<noteq> Stopped" and "handle (table (servers t) k) = Some p"
  shows "\<exists>ms rest. requests (servers (call_stop env k t)) =
           requests (servers t) @
           [if k = MariaDb
            then ClientShutdown k p (toString (settings_get (settings t) ''paths/mariadb'') @ ''/mysql.exe'')
            else Terminate k p, WaitExit k p ms] @ rest \<and>
         ms \<le> stop_timeout_ms \<and> (rest = [] \<or> rest = [ForceKill k p])"
proof -
  have soft: "soft_stop (settings t) k p =
      (if k = MariaDb
       then ClientShutdown k p (toString (settings_get (settings t) ''paths/mariadb'') @ ''/mysql.exe'')
       else Terminate k p)"
    by (cases k) (simp_all add: soft_stop_def)
  show ?thesis using assms
    by (auto simp: server_stop_def force_stop_def Let_def soft [symmetric] split: option.splits)
qed

theorem stop_request_sequence_witness:
  "statusOf (servers (call_start demo_env MariaDb demo_tray)) MariaDb \<noteq> Stopped \<and>
   handle (table (servers (call_start demo_env MariaDb demo_tray)) MariaDb) = Some 1 \<and>
   (\<exists>ms rest. requests (servers (call_stop demo_env MariaDb (call_start demo_env MariaDb demo_tray))) =
      requests (servers (call_start demo_env MariaDb demo_tray)) @
      [ClientShutdown MariaDb 1 (''bin/mariadb'' @ ''/mysql.exe''), WaitExit MariaDb 1 ms] @ rest \<and>
      ms \<le> stop_timeout_ms \<and> (rest = [] \<or> rest = [ForceKill MariaDb 1]))"
proof -
  have h1: "statusOf (servers (call_start demo_env MariaDb demo_tray)) MariaDb \<noteq> Stopped" by code_simp
  have h2: "handle (table (servers (call_start demo_env MariaDb demo_tray)) MariaDb) = Some 1" by code_simp
  have h3: "toString (settings_get (settings (call_start demo_env MariaDb demo_tray)) ''paths/mariadb'') =
      ''bin/mariadb''" by code_simp
  show ?thesis using h1 h2 stop_request_sequence [OF h1 h2] h3 by simp
qed

end
