(* ===== verification/Policy.thy ===== *)
theory Policy
  imports Calls
begin

text \<open>
  The batch operations and the autostart/shutdown policy of \<open>src/src/tray.cpp\<close>:
  \<open>startAllDaemons\<close> and \<open>stopAllDaemons\<close> are five calls in a fixed order,
  \<open>autostartDaemons\<close> five guarded calls, and the constructor and destructor run them
  under the global flags. The lemmas show the batches as folds over the code's order,
  that each batch attempts every daemon whatever the others do, the order in which the
  stop requests reach the OS, and what the policy starts and stops.
\<close>

text \<open>One line of \<open>autostartDaemons\<close>: \<open>if (settings->get("autostart/x").toBool()) servers->startX();\<close>\<close>

definition autostart_step :: "os_env \<Rightarrow> daemon \<Rightarrow> tray \<Rightarrow> tray" where
  "autostart_step env k t = (if flag (settings t) (autostart_key k) then call_start env k t else t)"

subsection \<open>The batches as folds\<close>

lemma autostart_step_settings [simp]: "settings (autostart_step env k t) = settings t"
  by (simp add: autostart_step_def)

lemma startAllDaemons_fold:
  "startAllDaemons env t = fold (call_start env) [Nginx, Php, MariaDb, MongoDb, Memcached] t"
  by (simp add: startAllDaemons_def)

lemma stopAllDaemons_fold:
  "stopAllDaemons env t = fold (call_stop env) [MariaDb, Php, Nginx, MongoDb, Memcached] t"
  by (simp add: stopAllDaemons_def)

lemma autostartDaemons_fold:
  "autostartDaemons env t = fold (autostart_step env) server_list t"
  by (simp only: autostartDaemons_def autostart_step_def autostart_key.simps Let_def
      server_list_def fold_simps comp_apply id_apply)

lemma fold_calls_settings [simp]:
  "settings (fold (call_start env) ks t) = settings t"
  "settings (fold (call_stop env) ks t) = settings t"
  "settings (fold (autostart_step env) ks t) = settings t"
  by (rule fold_frame; simp add: autostart_step_def)+

lemma fold_calls_untouched:
  assumes "k \<notin> set ks"
  shows "table (servers (fold (call_start env) ks t)) k = table (servers t) k"
    and "table (servers (fold (call_stop env) ks t)) k = table (servers t) k"
    and "table (servers (fold (autostart_step env) ks t)) k = table (servers t) k"
  using assms by (induction ks arbitrary: t) (simp_all add: autostart_step_def)

text \<open>In a batch over distinct daemons, \<open>k\<close>'s entry ends as its own call leaves it.\<close>

lemma fold_call_stop_entry:
  "distinct ks \<Longrightarrow> k \<in> set ks \<Longrightarrow>
   table (servers (fold (call_stop env) ks t)) k = table (snd (server_stop env (settings t) k (servers t))) k"
proof (induction ks arbitrary: t)
  case Nil
  then show ?case by simp
next
  case (Cons a ks)
  show ?case
  proof (cases "a = k")
    case True
    with Cons.prems have "k \<notin> set ks" by simp
    with True show ?thesis by (simp add: fold_calls_untouched)
  next
    case False
    with Cons.prems have "distinct ks" "k \<in> set ks" by simp_all
    with Cons.IH have "table (servers (fold (call_stop env) ks (call_stop env a t))) k =
        table (snd (server_stop env (settings t) k (servers (call_stop env a t)))) k" by simp
    moreover have "table (servers (call_stop env a t)) k = table (servers t) k"
      using False by simp
    ultimately show ?thesis
      using server_stop_local [of "servers (call_stop env a t)" k "servers t" env "settings t"] by simp
  qed
qed

text \<open>In a start batch over distinct daemons, \<open>k\<close>'s status is whatever its own call leaves.\<close>

lemma fold_call_start_own:
  assumes "\<And>s. P (statusOf (snd (server_start env cfg k s)) k)"
  shows "settings t = cfg \<Longrightarrow> distinct ks \<Longrightarrow> k \<in> set ks \<Longrightarrow>
    P (statusOf (servers (fold (call_start env) ks t)) k)"
proof (induction ks arbitrary: t)
  case Nil
  then show ?case by simp
next
  case (Cons a ks)
  show ?case
  proof (cases "a = k")
    case True
    with Cons.prems have "k \<notin> set ks" by simp
    with True assms Cons.prems(1) show ?thesis by (simp add: fold_calls_untouched statusOf_def)
  next
    case False
    with Cons.prems have "settings (call_start env a t) = cfg" "distinct ks" "k \<in> set ks" by simp_all
    then show ?thesis using Cons.IH by simp
  qed
qed

lemma fold_autostart_status:
  "distinct ks \<Longrightarrow> k \<in> set ks \<Longrightarrow> statusOf (servers t) k = Stopped \<Longrightarrow>
   (statusOf (servers (fold (autostart_step env) ks t)) k \<noteq> Stopped) = flag (settings t) (autostart_key k)"
proof (induction ks arbitrary: t)
  case Nil
  then show ?case by simp
next
  case (Cons a ks)
  show ?case
  proof (cases "a = k")
    case True
    with Cons.prems have "k \<notin> set ks" by simp
    then have u: "table (servers (fold (autostart_step env) ks (autostart_step env k t))) k =
        table (servers (autostart_step env k t)) k" by (rule fold_calls_untouched(3))
    have "(statusOf (servers (autostart_step env k t)) k \<noteq> Stopped) = flag (settings t) (autostart_key k)"
      using Cons.prems(3) server_start_status [of env "settings t" k "servers t"]
      by (auto simp: autostart_step_def)
    with True u show ?thesis by (simp add: statusOf_def)
  next
    case False
    with Cons.prems have d: "distinct ks" "k \<in> set ks" by simp_all
    from False Cons.prems(3) have "statusOf (servers (autostart_step env a t)) k = Stopped"
      by (simp add: autostart_step_def statusOf_def)
    with d have "(statusOf (servers (fold (autostart_step env) ks (autostart_step env a t))) k \<noteq> Stopped) =
        flag (settings (autostart_step env a t)) (autostart_key k)"
      by (rule Cons.IH)
    then show ?thesis by simp
  qed
qed

lemma server_stop_all_killable:
  "(\<forall>p. killable env p) \<Longrightarrow> fst (server_stop env cfg k s) = Inr ()"
  by (simp add: server_stop_def force_stop_def Let_def split: option.split)

lemma fold_call_stop_all_stopped:
  "(\<forall>k \<in> set ks. statusOf (servers t) k = Stopped) \<Longrightarrow> fold (call_stop env) ks t = t"
  by (induction ks) (simp_all add: call_stop_def server_stop_stopped)

lemma batches_inv:
  assumes "sup_inv (servers t)"
  shows "sup_inv (servers (startAllDaemons env t))" and "sup_inv (servers (stopAllDaemons env t))"
    and "sup_inv (servers (autostartDaemons env t))"
proof -
  show "sup_inv (servers (startAllDaemons env t))" unfolding startAllDaemons_fold
    by (rule fold_preserve [where P = "\<lambda>t. sup_inv (servers t)"]) (simp_all add: server_start_inv assms)
  show "sup_inv (servers (stopAllDaemons env t))" unfolding stopAllDaemons_fold
    by (rule fold_preserve [where P = "\<lambda>t. sup_inv (servers t)"]) (simp_all add: server_stop_inv assms)
  show "sup_inv (servers (autostartDaemons env t))" unfolding autostartDaemons_fold
    by (rule fold_preserve [where P = "\<lambda>t. sup_inv (servers t)"])
      (simp_all add: autostart_step_def server_start_inv assms)
qed

lemma stopAll_entry:
  "table (servers (stopAllDaemons env t)) k = table (snd (server_stop env (settings t) k (servers t))) k"
  unfolding stopAllDaemons_fold by (rule fold_call_stop_entry) (cases k; simp)+

lemma stopAll_all_stopped:
  assumes "sup_inv (servers t)" and "\<forall>p. killable env p"
  shows "statusOf (servers (stopAllDaemons env t)) k = Stopped"
proof -
  have "fst (server_stop env (settings t) k (servers t)) = Inr ()"
    using assms(2) by (rule server_stop_all_killable)
  with server_stop_Inr [OF assms(1) this] stopAll_entry show ?thesis by (simp add: statusOf_def)
qed

subsection \<open>Witness data\<close>

text \<open>The demo installation with autostart on, nginx flagged, php unflagged, and stop on quit.\<close>

definition demo_auto_cfg :: settings where
  "demo_auto_cfg = demo_cfg(''global/autostartdaemons'' \<mapsto> QBool True, ''autostart/nginx'' \<mapsto> QBool True,
     ''autostart/php'' \<mapsto> QBool False, ''global/stopdaemonsonquit'' \<mapsto> QBool True)"

subsection \<open>startAll and stopAll\<close>

text \<open>
  C10. \<open>startAllDaemons\<close> attempts every daemon: afterwards each one is \<open>Running\<close> or
  \<open>Failed\<close>, whatever happened to the others, and none is left \<open>Stopped\<close> or \<open>Starting\<close>.
\<close>

theorem startAll_attempts_all:
  "statusOf (servers (startAllDaemons env t)) k \<in> {Running, Failed}"
  unfolding startAllDaemons_fold
  by (rule fold_call_start_own [where P = "\<lambda>x. x \<in> {Running, Failed}" and cfg = "settings t"])
    (rule server_start_status, rule refl, simp, cases k, simp_all)

text \<open>
  C11. \<open>stopAllDaemons\<close> visits every daemon even when the stop of another fails: each
  daemon ends \<open>Stopped\<close>, or its own stop reported \<open>TerminationFailure\<close> and its entry
  is exactly as before.
\<close>

theorem stopAll_visits_all:
  assumes "sup_inv (servers t)"
  shows "statusOf (servers (stopAllDaemons env t)) k = Stopped \<or>
         (table (servers (stopAllDaemons env t)) k = table (servers t) k \<and>
          fst (server_stop env (settings t) k (servers t)) = Inl (TerminationFailure k))"
proof (cases "fst (server_stop env (settings t) k (servers t))")
  case (Inl e)
  with server_stop_Inl [OF Inl] stopAll_entry show ?thesis by simp
next
  case (Inr u)
  then have "fst (server_stop env (settings t) k (servers t)) = Inr ()" by simp
  with server_stop_Inr [OF assms this] stopAll_entry show ?thesis by (simp add: statusOf_def)
qed

theorem stopAll_visits_all_witness:
  "sup_inv (servers (startAllDaemons demo_env demo_tray)) \<and>
   (statusOf (servers (stopAllDaemons demo_env_stuck (startAllDaemons demo_env demo_tray))) MariaDb = Stopped \<or>
    (table (servers (stopAllDaemons demo_env_stuck (startAllDaemons demo_env demo_tray))) MariaDb =
       table (servers (startAllDaemons demo_env demo_tray)) MariaDb \<and>
     fst (server_stop demo_env_stuck (settings (startAllDaemons demo_env demo_tray)) MariaDb
       (servers (startAllDaemons demo_env demo_tray))) = Inl (TerminationFailure MariaDb)))"
proof -
  have h: "sup_inv (servers (startAllDaemons demo_env demo_tray))"
    by (rule batches_inv(1)) (simp add: demo_tray_def sup_inv_init)
  show ?thesis using h stopAll_visits_all [OF h, of demo_env_stuck MariaDb] by simp
qed

text \<open>
  C12. \<open>stopAllDaemons\<close> sends its requests daemon by daemon in the order MariaDB, PHP,
  nginx, MongoDB, memcached: the database is asked to stop before the script runner and
  the web server, and no request of a later daemon precedes one of an earlier daemon.
\<close>

theorem stopAll_request_order:
  "\<exists>r1 r2 r3 r4 r5. requests (servers (stopAllDaemons env t)) =
     requests (servers t) @ r1 @ r2 @ r3 @ r4 @ r5 \<and>
     list_all (\<lambda>r. req_daemon r = MariaDb) r1 \<and> list_all (\<lambda>r. req_daemon r = Php) r2 \<and>
     list_all (\<lambda>r. req_daemon r = Nginx) r3 \<and> list_all (\<lambda>r. req_daemon r = MongoDb) r4 \<and>
     list_all (\<lambda>r. req_daemon r = Memcached) r5"
proof -
  let ?t1 = "call_stop env MariaDb t"
  let ?t2 = "call_stop env Php ?t1"
  let ?t3 = "call_stop env Nginx ?t2"
  let ?t4 = "call_stop env MongoDb ?t3"
  obtain r1 where 1: "requests (servers ?t1) = requests (servers t) @ r1" "list_all (\<lambda>r. req_daemon r = MariaDb) r1"
    using server_stop_requests [of env "settings t" MariaDb "servers t"] by auto
  obtain r2 where 2: "requests (servers ?t2) = requests (servers ?t1) @ r2" "list_all (\<lambda>r. req_daemon r = Php) r2"
    using server_stop_requests [of env "settings t" Php "servers ?t1"] by auto
  obtain r3 where 3: "requests (servers ?t3) = requests (servers ?t2) @ r3" "list_all (\<lambda>r. req_daemon r = Nginx) r3"
    using server_stop_requests [of env "settings t" Nginx "servers ?t2"] by auto
  obtain r4 where 4: "requests (servers ?t4) = requests (servers ?t3) @ r4" "list_all (\<lambda>r. req_daemon r = MongoDb) r4"
    using server_stop_requests [of env "settings t" MongoDb "servers ?t3"] by auto
  obtain r5 where 5: "requests (servers (call_stop env Memcached ?t4)) = requests (servers ?t4) @ r5"
      "list_all (\<lambda>r. req_daemon r = Memcached) r5"
    using server_stop_requests [of env "settings t" Memcached "servers ?t4"] by auto
  show ?thesis
    by (intro exI [of _ r1] exI [of _ r2] exI [of _ r3] exI [of _ r4] exI [of _ r5])
      (use 1 2 3 4 5 in \<open>simp add: stopAllDaemons_def\<close>)
qed

text \<open>
  C13. Calling \<open>stopAllDaemons\<close> again after a stop-all in which every process obeyed
  the forced kill changes nothing: no further request is sent and no status changes.
\<close>

theorem stopAll_idempotent:
  assumes "sup_inv (servers t)" and "\<forall>p. killable env p"
  shows "stopAllDaemons env' (stopAllDaemons env t) = stopAllDaemons env t"
  unfolding stopAllDaemons_fold [of env' "stopAllDaemons env t"]
  by (rule fold_call_stop_all_stopped) (simp add: stopAll_all_stopped assms)

theorem stopAll_idempotent_witness:
  "sup_inv (servers (startAllDaemons demo_env demo_tray)) \<and> (\<forall>p. killable demo_env p) \<and>
   stopAllDaemons demo_env (stopAllDaemons demo_env (startAllDaemons demo_env demo_tray)) =
   stopAllDaemons demo_env (startAllDaemons demo_env demo_tray)"
proof -
  have h1: "sup_inv (servers (startAllDaemons demo_env demo_tray))"
    by (rule batches_inv(1)) (simp add: demo_tray_def sup_inv_init)
  have h2: "\<forall>p. killable demo_env p" by (simp add: demo_env_def)
  show ?thesis using h1 h2 stopAll_idempotent [OF h1 h2] by simp
qed

subsection \<open>The autostart and shutdown policy\<close>

lemma tray_init_servers:
  "servers (tray_init env v ifs cfg) =
     (if flag cfg ''global/autostartdaemons''
      then servers (fold (autostart_step env) server_list
             \<lparr>settings = cfg, servers = init_sup, context_menu = Some (tray_menu_entries v ifs),
              opened_urls = [], alive = True\<rparr>)
      else init_sup)"
  by (simp add: tray_init_def createTrayMenu_def autostartDaemons_fold Let_def)

text \<open>
  C14. With \<open>global/autostartdaemons\<close> set, the constructor starts exactly the daemons
  whose \<open>autostart/...\<close> flag is set: afterwards a daemon is not \<open>Stopped\<close> if and only
  if its flag is set, and a failed autostart of one daemon does not prevent the others.
\<close>

theorem autostart_exact:
  assumes "flag cfg ''global/autostartdaemons''"
  shows "(statusOf (servers (tray_init env v ifs cfg)) k \<noteq> Stopped) = flag cfg (autostart_key k)"
proof -
  let ?t = "\<lparr>settings = cfg, servers = init_sup, context_menu = Some (tray_menu_entries v ifs),
              opened_urls = [], alive = True\<rparr>"
  have "statusOf (servers ?t) k = Stopped" by (simp add: init_sup_def statusOf_def)
  then have "(statusOf (servers (fold (autostart_step env) server_list ?t)) k \<noteq> Stopped) =
      flag (settings ?t) (autostart_key k)"
    by (intro fold_autostart_status) (cases k; simp add: server_list_def)+
  with assms show ?thesis by (simp add: tray_init_servers)
qed

theorem autostart_exact_witness:
  "flag demo_auto_cfg ''global/autostartdaemons'' \<and>
   (statusOf (servers (tray_init demo_env ''0.8'' [] demo_auto_cfg)) Nginx \<noteq> Stopped) =
     flag demo_auto_cfg (autostart_key Nginx)"
proof -
  have h: "flag demo_auto_cfg ''global/autostartdaemons''" by (simp add: demo_auto_cfg_def)
  show ?thesis using h autostart_exact [OF h, of demo_env "''0.8''" "[]" Nginx] by simp
qed

text \<open>
  C15. Without \<open>global/autostartdaemons\<close> the constructor starts nothing, whatever the
  per-daemon \<open>autostart/...\<close> flags say: the supervisor stays in its initial state.
\<close>

theorem autostart_requires_global:
  assumes "\<not> flag cfg ''global/autostartdaemons''"
  shows "servers (tray_init env v ifs cfg) = init_sup"
  using assms by (simp add: tray_init_servers)

theorem autostart_requires_global_witness:
  "\<not> flag (demo_auto_cfg(''global/autostartdaemons'' := None)) ''global/autostartdaemons'' \<and>
   flag (demo_auto_cfg(''global/autostartdaemons'' := None)) ''autostart/nginx'' \<and>
   servers (tray_init demo_env ''0.8'' [] (demo_auto_cfg(''global/autostartdaemons'' := None))) = init_sup"
proof -
  have h: "\<not> flag (demo_auto_cfg(''global/autostartdaemons'' := None)) ''global/autostartdaemons''" by simp
  have n: "flag (demo_auto_cfg(''global/autostartdaemons'' := None)) ''autostart/nginx''"
    by (simp add: demo_auto_cfg_def)
  show ?thesis using h n autostart_requires_global [OF h, of demo_env "''0.8''" "[]"] by simp
qed

text \<open>
  C31. Quitting without \<open>global/stopdaemonsonquit\<close> leaves the daemons alone: the
  destructor's guard (\<open>tray.cpp\<close> line 73) skips \<open>stopAllDaemons\<close>, so the supervisor,
  its OS requests and its processes are exactly as before, and the application has ended.
\<close>

theorem quit_keeps_daemons:
  assumes "\<not> flag (settings t) ''global/stopdaemonsonquit''"
  shows "servers (trigger env Quit t) = servers t \<and> \<not> alive (trigger env Quit t)"
  using assms by (simp add: tray_destroy_def Let_def)

theorem quit_keeps_daemons_witness:
  "\<not> flag (settings (call_start demo_env Nginx demo_tray)) ''global/stopdaemonsonquit'' \<and>
   servers (trigger demo_env Quit (call_start demo_env Nginx demo_tray)) =
     servers (call_start demo_env Nginx demo_tray)"
proof -
  have h: "\<not> flag (settings (call_start demo_env Nginx demo_tray)) ''global/stopdaemonsonquit''"
    by (simp add: demo_tray_def) code_simp
  show ?thesis using h quit_keeps_daemons [OF h, of demo_env] by simp
qed

end
