(* ===== verification/Lifecycle.thy ===== *)
theory Lifecycle
  imports Policy
begin

text \<open>
  The application's life as a state machine over the tray. It is created by the
  constructor (\<open>tray_init\<close>), and until it quits each step is one event of the Qt
  event loop: a menu action running its slot (\<open>trigger\<close>, the quit action included), an
  action of a server's own submenu (one \<open>servers->startX()\<close> or \<open>stopX()\<close> call), an
  OS exit notification handled by the supervisor, or an edit of the configuration store. The OS's answers are chosen
  afresh at every step, so the invariants below hold whatever the OS does. They are
  proved by rule induction over the reachable states, from one preservation lemma per
  kind of step.
\<close>

inductive app_step :: "tray \<Rightarrow> tray \<Rightarrow> bool" where
  menu_action: "alive t \<Longrightarrow> app_step t (trigger env sl t)"
| server_start: "alive t \<Longrightarrow> app_step t (call_start env k t)"
| server_stop: "alive t \<Longrightarrow> app_step t (call_stop env k t)"
| os_exit: "alive t \<Longrightarrow> app_step t (t\<lparr>servers := process_exited p c (servers t)\<rparr>)"
| reconfigure: "alive t \<Longrightarrow> app_step t (t\<lparr>settings := cfg\<rparr>)"

inductive reachable :: "tray \<Rightarrow> bool" where
  launch: "reachable (tray_init env v ifs cfg)"
| step: "reachable t \<Longrightarrow> app_step t t' \<Longrightarrow> reachable t'"

inductive_cases app_stepE: "app_step t t'"

subsection \<open>Preservation\<close>

lemma batches_ok [inv_intros]:
  assumes "sup_ok (servers t)"
  shows "sup_ok (servers (startAllDaemons env t))" and "sup_ok (servers (stopAllDaemons env t))"
    and "sup_ok (servers (autostartDaemons env t))"
proof -
  show "sup_ok (servers (startAllDaemons env t))" unfolding startAllDaemons_fold
    by (rule fold_preserve [where P = "\<lambda>t. sup_ok (servers t)"]) (simp_all add: server_start_ok server_stop_ok assms)
  show "sup_ok (servers (stopAllDaemons env t))" unfolding stopAllDaemons_fold
    by (rule fold_preserve [where P = "\<lambda>t. sup_ok (servers t)"]) (simp_all add: server_start_ok server_stop_ok assms)
  show "sup_ok (servers (autostartDaemons env t))" unfolding autostartDaemons_fold
    by (rule fold_preserve [where P = "\<lambda>t. sup_ok (servers t)"])
      (simp_all add: autostart_step_def server_start_ok assms)
qed

lemma tray_init_ok: "sup_ok (servers (tray_init env v ifs cfg))"
proof -
  have "sup_ok (servers (createTrayMenu v ifs
      \<lparr>settings = cfg, servers = init_sup, context_menu = None, opened_urls = [], alive = True\<rparr>))"
    by (simp add: createTrayMenu_def sup_ok_init)
  then show ?thesis by (simp add: tray_init_def Let_def batches_ok)
qed

lemma trigger_ok [inv_intros]: "sup_ok (servers t) \<Longrightarrow> sup_ok (servers (trigger env sl t))"
  by (cases sl) (simp_all add: batches_ok goToWebinterface_def goToReportIssue_def openHostManagerDialog_def
      goToWebsiteHelp_def tray_destroy_def Let_def)

lemma app_step_ok: "app_step t t' \<Longrightarrow> sup_ok (servers t) \<Longrightarrow> sup_ok (servers t')"
  by (induction rule: app_step.induct) (simp_all add: trigger_ok server_start_ok server_stop_ok process_exited_ok)

lemma reachable_ok: "reachable t \<Longrightarrow> sup_ok (servers t)"
proof (induction rule: reachable.induct)
  case (launch env v ifs cfg)
  show ?case by (rule tray_init_ok)
next
  case (step t t')
  then show ?case by (blast intro: app_step_ok)
qed

subsection \<open>Witness data\<close>

definition demo_launched :: tray where
  "demo_launched = tray_init demo_env ''0.8'' [] demo_auto_cfg"

lemma demo_launched_reachable: "reachable demo_launched"
  unfolding demo_launched_def by (rule reachable.launch)

subsection \<open>Invariants of every reachable state\<close>

text \<open>
  C16. In every reachable state the supervisor's table and the OS process table agree:
  every live process belongs to the daemon whose handle names it, every handle names a
  live process, a daemon has a handle exactly when it is \<open>Running\<close>, none is left
  \<open>Starting\<close>, and process identifiers are distinct and fresh.
\<close>

theorem reachable_sup_inv:
  assumes "reachable t"
  shows "sup_inv (servers t)"
  using reachable_ok [OF assms] by (simp add: sup_ok_def)

theorem reachable_sup_inv_witness: "reachable demo_launched \<and> sup_inv (servers demo_launched)"
  using demo_launched_reachable reachable_sup_inv [OF demo_launched_reachable] by simp

text \<open>
  C17. No operation blocks beyond the stop timeout: in every reachable state, every wait
  for a process exit the supervisor has performed lasted at most \<open>stop_timeout_ms\<close>
  (3000 ms) before it escalated.
\<close>

theorem reachable_waits_bounded:
  assumes "reachable t"
  shows "list_all (\<lambda>r. case r of WaitExit _ _ ms \<Rightarrow> ms \<le> stop_timeout_ms | _ \<Rightarrow> True)
           (requests (servers t))"
  using reachable_ok [OF assms] by (simp add: sup_ok_def waits_bounded_def)

definition demo_stopped :: tray where
  "demo_stopped = trigger demo_env_stuck StopAll demo_launched"

lemma demo_stopped_reachable: "reachable demo_stopped"
proof -
  have "alive demo_launched" by (simp add: demo_launched_def) code_simp
  then have "app_step demo_launched demo_stopped"
    unfolding demo_stopped_def by (rule app_step.menu_action)
  with demo_launched_reachable show ?thesis by (rule reachable.step)
qed

theorem reachable_waits_bounded_witness:
  "reachable demo_stopped \<and> WaitExit Nginx 1 stop_timeout_ms \<in> set (requests (servers demo_stopped)) \<and>
   list_all (\<lambda>r. case r of WaitExit _ _ ms \<Rightarrow> ms \<le> stop_timeout_ms | _ \<Rightarrow> True)
     (requests (servers demo_stopped))"
proof -
  have h: "WaitExit Nginx 1 stop_timeout_ms \<in> set (requests (servers demo_stopped))"
    by (simp add: demo_stopped_def demo_launched_def) code_simp
  show ?thesis using demo_stopped_reachable h reachable_waits_bounded [OF demo_stopped_reachable] by simp
qed

text \<open>
  C18. The presentation layer sees reality: in every reachable state, the status carried
  by the last status-changed notification sent for a daemon (or \<open>Stopped\<close> when none
  was sent) is the daemon's current status.
\<close>

theorem notifications_track_status:
  assumes "reachable t"
  shows "last_status k (notified (servers t)) = statusOf (servers t) k"
  using reachable_ok [OF assms] by (simp add: sup_ok_def notes_consistent_def statusOf_def)

theorem notifications_track_status_witness:
  "reachable demo_stopped \<and> last_status MariaDb (notified (servers demo_stopped)) = statusOf (servers demo_stopped) MariaDb"
  using demo_stopped_reachable notifications_track_status [OF demo_stopped_reachable] by simp

subsection \<open>Progress and termination of the application\<close>

text \<open>
  C19. From every reachable state of the running application, when every daemon's recipe
  resolves and its executable exists and may be created, the \<open>Start All\<close> menu action
  is a step and brings every daemon to \<open>Running\<close>.
\<close>

theorem startAll_reaches_running:
  assumes "reachable t" and "alive t"
    and "\<forall>k. case resolve_launch (settings t) k of Inl _ \<Rightarrow> False
               | Inr (exe, _, _) \<Rightarrow> file_exists env exe \<and> create_allowed env exe"
  shows "app_step t (trigger env StartAll t) \<and> (\<forall>k. statusOf (servers (trigger env StartAll t)) k = Running)"
proof
  show "app_step t (trigger env StartAll t)" using assms(2) by (rule app_step.menu_action)
  show "\<forall>k. statusOf (servers (trigger env StartAll t)) k = Running"
  proof
    fix k
    from assms(3) have "case resolve_launch (settings t) k of Inl _ \<Rightarrow> False
        | Inr (exe, _, _) \<Rightarrow> file_exists env exe \<and> create_allowed env exe" ..
    then obtain exe args wd where r: "resolve_launch (settings t) k = Inr (exe, args, wd)"
      and "file_exists env exe" "create_allowed env exe"
      by (auto split: sum.splits prod.splits)
    then have "\<And>s. statusOf (snd (server_start env (settings t) k s)) k = Running"
      by (rule server_start_success)
    then show "statusOf (servers (trigger env StartAll t)) k = Running"
      unfolding trigger.simps startAllDaemons_fold
      by (rule fold_call_start_own [where P = "\<lambda>x. x = Running"]) simp_all
  qed
qed

theorem startAll_reaches_running_witness:
  "reachable demo_launched \<and> alive demo_launched \<and>
   (\<forall>k. case resolve_launch (settings demo_launched) k of Inl _ \<Rightarrow> False
          | Inr (exe, _, _) \<Rightarrow> file_exists demo_env exe \<and> create_allowed demo_env exe) \<and>
   statusOf (servers (trigger demo_env StartAll demo_launched)) MongoDb = Running"
proof -
  have a: "alive demo_launched" by (simp add: demo_launched_def) code_simp
  have r: "\<forall>k. case resolve_launch (settings demo_launched) k of Inl _ \<Rightarrow> False
          | Inr (exe, _, _) \<Rightarrow> file_exists demo_env exe \<and> create_allowed demo_env exe"
    unfolding all_daemon by (simp add: demo_launched_def demo_env_def) code_simp
  show ?thesis using demo_launched_reachable a r startAll_reaches_running [OF demo_launched_reachable a r]
    by simp
qed

text \<open>
  C20. Quitting ends the application: the tray's destructor runs, after which no further
  step is possible; with \<open>global/stopdaemonsonquit\<close> set and processes that obey the
  forced kill, every daemon is \<open>Stopped\<close> when the application has quit.
\<close>

theorem quit_stops_and_ends:
  assumes "reachable t" and "flag (settings t) ''global/stopdaemonsonquit''" and "\<forall>p. killable env p"
  shows "(\<forall>k. statusOf (servers (trigger env Quit t)) k = Stopped) \<and> (\<forall>t'. \<not> app_step (trigger env Quit t) t')"
proof
  have i: "sup_inv (servers t)" using reachable_ok [OF assms(1)] by (simp add: sup_ok_def)
  show "\<forall>k. statusOf (servers (trigger env Quit t)) k = Stopped"
    using stopAll_all_stopped [OF i assms(3)] assms(2) by (simp add: tray_destroy_def)
  show "\<forall>t'. \<not> app_step (trigger env Quit t) t'"
    by (auto simp: tray_destroy_def Let_def elim: app_stepE)
qed

theorem quit_stops_and_ends_witness:
  "reachable demo_launched \<and> flag (settings demo_launched) ''global/stopdaemonsonquit'' \<and>
   (\<forall>p. killable demo_env p) \<and> statusOf (servers (trigger demo_env Quit demo_launched)) Nginx = Stopped"
proof -
  have f: "flag (settings demo_launched) ''global/stopdaemonsonquit''"
    by (simp add: demo_launched_def) code_simp
  have k: "\<forall>p. killable demo_env p" by (simp add: demo_env_def)
  show ?thesis using demo_launched_reachable f k quit_stops_and_ends [OF demo_launched_reachable f k]
    by simp
qed

end
