(* ===== verification/Batches.thy ===== *)
theory Batches
  imports Lifecycle
begin

text \<open>
  Properties of the tray's batch operations that span the supervisor and the policy:
  failures stay local to their daemon (spec section 7), the time the event thread can
  be blocked by \<open>startAllDaemons\<close> and \<open>stopAllDaemons\<close> (spec section 5: only the
  bounded wait of a stop blocks), and that a stop-all whose processes obey the forced
  kill leaves no process behind. The blocking time of a sequence of OS requests is the
  sum of its \<open>WaitExit\<close> durations.
\<close>

fun wait_ms :: "os_request \<Rightarrow> nat" where
  "wait_ms (WaitExit _ _ ms) = ms"
| "wait_ms _ = 0"

definition total_wait :: "os_request list \<Rightarrow> nat" where
  "total_wait rs = sum_list (map wait_ms rs)"

text \<open>The spec's \<open>stopAll()\<close> and \<open>startAll()\<close> (section 4.2) as reference loops: each visits
  the daemons in its order and calls \<open>stop\<close> only on a daemon not \<open>Stopped\<close>, \<open>start\<close> only on
  one not \<open>Running\<close>.\<close>

definition spec_stopAll :: "os_env \<Rightarrow> tray \<Rightarrow> tray" where
  "spec_stopAll env t =
     fold (\<lambda>k t. if statusOf (servers t) k \<noteq> Stopped then call_stop env k t else t)
       [MariaDb, Php, Nginx, MongoDb, Memcached] t"

definition spec_startAll :: "os_env \<Rightarrow> tray \<Rightarrow> tray" where
  "spec_startAll env t =
     fold (\<lambda>k t. if statusOf (servers t) k \<noteq> Running then call_start env k t else t)
       [Nginx, Php, MariaDb, MongoDb, Memcached] t"

lemma total_wait_simps [simp]:
  "total_wait [] = 0" "total_wait (rs @ qs) = total_wait rs + total_wait qs"
  "total_wait (r # rs) = wait_ms r + total_wait rs"
  by (simp_all add: total_wait_def)

subsection \<open>Blocking time of one call\<close>

lemma server_stop_wait:
  "\<exists>rs. requests (snd (server_stop env cfg k s)) = requests s @ rs \<and> total_wait rs \<le> stop_timeout_ms"
  by (auto simp: server_stop_def force_stop_def soft_stop_def send_def Let_def stop_timeout_ms_def
      split: option.split)

lemma server_start_wait:
  "\<exists>rs. requests (snd (server_start env cfg k s)) = requests s @ rs \<and> total_wait rs \<le> 0"
  by (auto simp: server_start_def launch_def send_def Let_def split: sum.split prod.split)

lemma call_wait:
  "\<exists>rs. requests (servers (call_stop env k t)) = requests (servers t) @ rs \<and> total_wait rs \<le> stop_timeout_ms"
  "\<exists>rs. requests (servers (call_start env k t)) = requests (servers t) @ rs \<and> total_wait rs \<le> 0"
  using server_stop_wait server_start_wait by simp_all

lemma fold_requests_wait:
  assumes "\<And>k t. \<exists>rs. requests (servers (f k t)) = requests (servers t) @ rs \<and> total_wait rs \<le> b"
  shows "\<exists>rs. requests (servers (fold f ks t)) = requests (servers t) @ rs \<and> total_wait rs \<le> length ks * b"
proof (induction ks arbitrary: t)
  case Nil
  show ?case by simp
next
  case (Cons k ks)
  obtain rs where rs: "requests (servers (f k t)) = requests (servers t) @ rs" "total_wait rs \<le> b"
    using assms by blast
  obtain qs where qs: "requests (servers (fold f ks (f k t))) = requests (servers (f k t)) @ qs"
      "total_wait qs \<le> length ks * b"
    using Cons.IH by blast
  show ?case using rs qs by (intro exI [of _ "rs @ qs"]) simp
qed

lemma five_daemons:
  "length [Nginx, Php, MariaDb, MongoDb, Memcached] = 5"
  "length [MariaDb, Php, Nginx, MongoDb, Memcached] = 5"
  by simp_all

lemma new_requests_wait:
  "\<exists>rs. requests s' = requests s @ rs \<and> total_wait rs \<le> b \<Longrightarrow>
   total_wait (drop (length (requests s)) (requests s')) \<le> b"
  by auto

lemma call_noops:
  "statusOf (servers t) k = Stopped \<Longrightarrow> call_stop env k t = t"
  "statusOf (servers t) k = Running \<Longrightarrow> call_start env k t = t"
  by (simp_all add: call_stop_def call_start_def server_stop_stopped server_start_def)

lemma guarded_calls:
  "(\<lambda>k t. if statusOf (servers t) k \<noteq> Stopped then call_stop env k t else t) = call_stop env"
  "(\<lambda>k t. if statusOf (servers t) k \<noteq> Running then call_start env k t else t) = call_start env"
  by (auto simp: fun_eq_iff call_noops)

subsection \<open>Blocking time of the batches\<close>

text \<open>
  C25. \<open>Tray::stopAllDaemons\<close> blocks the event thread for at most five stop timeouts
  (15 s): the waits it asks the OS for add up to at most \<open>5 * stop_timeout_ms\<close>.
\<close>

theorem stopAll_blocking_bound:
  "total_wait (drop (length (requests (servers t))) (requests (servers (stopAllDaemons env t))))
     \<le> 5 * stop_timeout_ms"
proof (rule new_requests_wait)
  show "\<exists>rs. requests (servers (stopAllDaemons env t)) = requests (servers t) @ rs \<and>
      total_wait rs \<le> 5 * stop_timeout_ms"
    unfolding stopAllDaemons_fold
    using fold_requests_wait [of "call_stop env", OF call_wait(1), where ks = "[MariaDb, Php, Nginx, MongoDb, Memcached]"] unfolding five_daemons .
qed

text \<open>
  C26. \<open>Tray::startAllDaemons\<close> never blocks: the requests it sends contain no wait.
\<close>

theorem startAll_nonblocking:
  "total_wait (drop (length (requests (servers t))) (requests (servers (startAllDaemons env t)))) = 0"
proof -
  have "\<exists>rs. requests (servers (startAllDaemons env t)) = requests (servers t) @ rs \<and> total_wait rs \<le> 5 * 0"
    unfolding startAllDaemons_fold
    using fold_requests_wait [of "call_start env", OF call_wait(2), where ks = "[Nginx, Php, MariaDb, MongoDb, Memcached]"] unfolding five_daemons .
  then have "total_wait (drop (length (requests (servers t))) (requests (servers (startAllDaemons env t))))
      \<le> 5 * 0"
    by (rule new_requests_wait)
  then show ?thesis by simp
qed

subsection \<open>Locality and clean shutdown\<close>

text \<open>
  C27. Failures are local to their daemon: a start or a stop of one daemon, whatever its
  outcome, leaves the supervisor's entry of every other daemon unchanged.
\<close>

theorem failure_local:
  assumes "k' \<noteq> k"
  shows "table (servers (call_start env k t)) k' = table (servers t) k' \<and>
         table (servers (call_stop env k t)) k' = table (servers t) k'"
  using assms by simp

theorem failure_local_witness:
  "Php \<noteq> Nginx \<and>
   table (servers (call_start demo_env Nginx demo_tray)) Php = table (servers demo_tray) Php \<and>
   table (servers (call_stop demo_env Nginx demo_tray)) Php = table (servers demo_tray) Php"
  using failure_local [of Php Nginx demo_env demo_tray] by simp

text \<open>
  C28. From every reachable state, the Stop All action with processes that obey the
  forced kill leaves no process behind: the OS table is empty and no daemon has a handle.
\<close>

theorem stopAll_no_orphans:
  assumes "reachable t" and "\<forall>p. killable env p"
  shows "live (servers (trigger env StopAll t)) = [] \<and>
         (\<forall>k. handle (table (servers (trigger env StopAll t)) k) = None)"
proof -
  have i: "sup_inv (servers t)" using reachable_ok [OF assms(1)] by (simp add: sup_ok_def)
  have i': "sup_inv (servers (stopAllDaemons env t))" by (rule batches_inv(2) [OF i])
  have h: "handle (table (servers (stopAllDaemons env t)) k) = None" for k
  proof (rule inv_not_running_no_handle [OF i'])
    show "st (table (servers (stopAllDaemons env t)) k) \<noteq> Running"
      using stopAll_all_stopped [OF i assms(2), of k] by (simp add: statusOf_def)
  qed
  have "k \<notin> snd ` set (live (servers (stopAllDaemons env t)))" for k
    by (rule inv_no_handle_not_live [OF i' h])
  then have "live (servers (stopAllDaemons env t)) = []"
    by (metis image_eqI last_in_set snd_conv surj_pair)
  moreover have "trigger env StopAll t = stopAllDaemons env t" by simp
  ultimately show ?thesis using h by simp
qed

theorem stopAll_no_orphans_witness:
  "reachable demo_launched \<and> (\<forall>p. killable demo_env p) \<and>
   live (servers (trigger demo_env StopAll demo_launched)) = []"
proof -
  have k: "\<forall>p. killable demo_env p" by (simp add: demo_env_def)
  show ?thesis using demo_launched_reachable k stopAll_no_orphans [OF demo_launched_reachable k] by simp
qed

subsection \<open>Equivalence with the spec's batch loops\<close>

text \<open>
  C29. The tray's unguarded batches are equivalent to the spec's guarded loops:
  \<open>stopAllDaemons\<close> equals stopping, in the stop order, only the daemons not
  \<open>Stopped\<close>, and \<open>startAllDaemons\<close> equals starting, in the start order, only the
  daemons not \<open>Running\<close>.
\<close>

theorem batches_equiv_spec:
  "stopAllDaemons env t = spec_stopAll env t \<and> startAllDaemons env t = spec_startAll env t"
  by (simp only: spec_stopAll_def spec_startAll_def guarded_calls stopAllDaemons_fold startAllDaemons_fold)

subsection \<open>A second stop-all after a failed termination\<close>

lemma server_stop_grows:
  "statusOf s k \<noteq> Stopped \<Longrightarrow> handle (table s k) = Some p \<Longrightarrow>
   length (requests s) < length (requests (snd (server_stop env cfg k s)))"
  by (simp add: server_stop_def force_stop_def send_def Let_def split: option.split)

lemma fold_call_stop_mono:
  "length (requests (servers t)) \<le> length (requests (servers (fold (call_stop env) ks t)))"
proof (induction ks arbitrary: t)
  case Nil
  then show ?case by simp
next
  case (Cons k ks)
  obtain rs where "requests (snd (server_stop env (settings t) k (servers t))) = requests (servers t) @ rs"
    using server_stop_requests by blast
  then show ?case using Cons.IH [of "call_stop env k t"] by simp
qed

lemma fold_call_stop_grows:
  "k \<in> set ks \<Longrightarrow> statusOf (servers t) k \<noteq> Stopped \<Longrightarrow> handle (table (servers t) k) = Some p \<Longrightarrow>
   length (requests (servers t)) < length (requests (servers (fold (call_stop env) ks t)))"
proof (induction ks arbitrary: t)
  case Nil
  then show ?case by simp
next
  case (Cons k' ks)
  show ?case
  proof (cases "k' = k")
    case True
    then have "length (requests (servers t)) < length (requests (servers (call_stop env k' t)))"
      using server_stop_grows [OF Cons.prems(2,3)] by simp
    then show ?thesis using less_le_trans [OF _ fold_call_stop_mono] by simp
  next
    case False
    then have "k \<in> set ks" using Cons.prems(1) by simp
    moreover have "table (servers (call_stop env k' t)) k = table (servers t) k" using False by simp
    moreover obtain rs where "requests (snd (server_stop env (settings t) k' (servers t))) = requests (servers t) @ rs"
      using server_stop_requests by blast
    ultimately show ?thesis
      using Cons.IH [of "call_stop env k' t"] Cons.prems(2,3) by (simp add: statusOf_def)
  qed
qed

lemma server_stop_stuck:
  assumes "statusOf s k = Running" "handle (table s k) = Some p" "\<not> killable env p"
    "case exit_after_ms env p of None \<Rightarrow> True | Some ms \<Rightarrow> stop_timeout_ms < ms"
  shows "table (snd (server_stop env cfg k s)) = table s"
proof -
  have "fst (server_stop env cfg k s) = Inl (TerminationFailure k)"
    using assms by (auto simp: server_stop_def force_stop_def Let_def split: option.splits)
  then show ?thesis using server_stop_Inl by blast
qed

text \<open>
  C30. Stop All is not idempotent after a termination failure: when a running daemon's
  process neither exits within the timeout nor dies on the forced kill, Stop All leaves it
  \<open>Running\<close> (spec section 7), and a second Stop All sends new OS requests for it, where
  spec section 8 promises no additional requests.
\<close>

theorem stopAll_retries_failed_stop:
  assumes "statusOf (servers t) k = Running" and "handle (table (servers t) k) = Some p"
    and "\<not> killable env p" and "case exit_after_ms env p of None \<Rightarrow> True | Some ms \<Rightarrow> stop_timeout_ms < ms"
  shows "statusOf (servers (stopAllDaemons env t)) k = Running \<and>
         length (requests (servers (stopAllDaemons env t))) <
         length (requests (servers (stopAllDaemons env (stopAllDaemons env t))))"
proof -
  have e: "table (servers (stopAllDaemons env t)) k = table (servers t) k"
    using stopAll_entry server_stop_stuck [OF assms] by simp
  have "k \<in> set [MariaDb, Php, Nginx, MongoDb, Memcached]" by (cases k) simp_all
  then have "length (requests (servers (stopAllDaemons env t))) <
      length (requests (servers (fold (call_stop env) [MariaDb, Php, Nginx, MongoDb, Memcached] (stopAllDaemons env t))))"
    by (rule fold_call_stop_grows) (use e assms(1,2) in \<open>simp_all add: statusOf_def\<close>)
  then show ?thesis using e assms(1) by (simp add: statusOf_def stopAllDaemons_fold)
qed

theorem stopAll_retries_failed_stop_witness:
  "statusOf (servers demo_launched) Nginx = Running \<and> handle (table (servers demo_launched) Nginx) = Some 1 \<and>
   \<not> killable demo_env_stuck 1 \<and>
   (case exit_after_ms demo_env_stuck 1 of None \<Rightarrow> True | Some ms \<Rightarrow> stop_timeout_ms < ms) \<and>
   statusOf (servers (stopAllDaemons demo_env_stuck demo_launched)) Nginx = Running"
proof -
  have h1: "statusOf (servers demo_launched) Nginx = Running" by code_simp
  have h2: "handle (table (servers demo_launched) Nginx) = Some 1" by code_simp
  have h3: "\<not> killable demo_env_stuck 1" by (simp add: demo_env_stuck_def demo_env_def)
  have h4: "case exit_after_ms demo_env_stuck 1 of None \<Rightarrow> True | Some ms \<Rightarrow> stop_timeout_ms < ms"
    by (simp add: demo_env_stuck_def demo_env_def)
  show ?thesis using h1 h2 h3 h4 stopAll_retries_failed_stop [OF h1 h2 h3 h4] by simp
qed
end
