(* ===== verification/Abstract.thy ===== *)
theory Abstract
  imports Tray
begin

text \<open>
  The contract of the supervisor as the spec states it (sections 3 and 4.2), as an
  abstract machine over the status of each daemon only: \<open>start\<close> leaves a running
  daemon alone and otherwise makes it running or failed, \<open>stop\<close> leaves a stopped
  daemon alone and otherwise stops it or, when termination cannot be confirmed, leaves
  it as it was. Whether a launch or a termination succeeds is an oracle computed from
  the configuration and the OS's answers. The refinement lemmas show that the tray's
  calls into the concrete supervisor implement these abstract operations under the
  abstraction that forgets handles, the OS table and the logs.
\<close>

datatype astatus = AStopped | ARunning | AFailed

fun abs_status :: "status \<Rightarrow> astatus" where
  "abs_status Stopped = AStopped"
| "abs_status Starting = AStopped"
| "abs_status Running = ARunning"
| "abs_status Failed = AFailed"

definition abs_sup :: "sup \<Rightarrow> daemon \<Rightarrow> astatus" where
  "abs_sup s k = abs_status (st (table s k))"

definition a_start :: "bool \<Rightarrow> daemon \<Rightarrow> (daemon \<Rightarrow> astatus) \<Rightarrow> daemon \<Rightarrow> astatus" where
  "a_start ok k a = (if a k = ARunning then a else a(k := if ok then ARunning else AFailed))"

definition a_stop :: "bool \<Rightarrow> daemon \<Rightarrow> (daemon \<Rightarrow> astatus) \<Rightarrow> daemon \<Rightarrow> astatus" where
  "a_stop ok k a = (if a k = AStopped then a else if ok then a(k := AStopped) else a)"

text \<open>The oracles: the recipe resolves and the OS creates the program; the process obeys the stop or the kill.\<close>

definition launch_ok :: "os_env \<Rightarrow> settings \<Rightarrow> daemon \<Rightarrow> bool" where
  "launch_ok env cfg k =
     (case resolve_launch cfg k of
        Inl _ \<Rightarrow> False
      | Inr (exe, _, _) \<Rightarrow> file_exists env exe \<and> create_allowed env exe)"

definition stop_ok :: "os_env \<Rightarrow> sup \<Rightarrow> daemon \<Rightarrow> bool" where
  "stop_ok env s k =
     (case handle (table s k) of
        None \<Rightarrow> True
      | Some p \<Rightarrow> (case exit_after_ms env p of Some ms \<Rightarrow> ms \<le> stop_timeout_ms | None \<Rightarrow> False)
                  \<or> killable env p)"

subsection \<open>Refinement\<close>

text \<open>
  C21. The tray's \<open>servers->startX()\<close> call refines the abstract \<open>start\<close>: in the
  abstract view the call is \<open>a_start\<close> with the launch oracle, on every daemon.
\<close>

theorem call_start_refines:
  "abs_sup (servers (call_start env k t)) = a_start (launch_ok env (settings t) k) k (abs_sup (servers t))"
proof
  fix k'
  show "abs_sup (servers (call_start env k t)) k' = a_start (launch_ok env (settings t) k) k (abs_sup (servers t)) k'"
  proof (cases "k' = k")
    case True
    then show ?thesis
      by (cases "st (table (servers t) k)")
        (auto simp: abs_sup_def a_start_def launch_ok_def server_start_def launch_def Let_def
          statusOf_def split: sum.split prod.split)
  next
    case False
    then show ?thesis by (simp add: abs_sup_def a_start_def)
  qed
qed

text \<open>
  C22. The tray's \<open>servers->stopX()\<close> call refines the abstract \<open>stop\<close>: in the
  abstract view the call is \<open>a_stop\<close> with the termination oracle, on every daemon; in
  particular a stop whose termination cannot be confirmed does not claim \<open>Stopped\<close>.
\<close>

theorem call_stop_refines:
  "abs_sup (servers (call_stop env k t)) = a_stop (stop_ok env (servers t) k) k (abs_sup (servers t))"
proof
  fix k'
  show "abs_sup (servers (call_stop env k t)) k' = a_stop (stop_ok env (servers t) k) k (abs_sup (servers t)) k'"
  proof (cases "k' = k")
    case True
    then show ?thesis
      by (cases "st (table (servers t) k)")
        (auto simp: abs_sup_def a_stop_def stop_ok_def server_stop_def force_stop_def Let_def
          statusOf_def split: option.split)
  next
    case False
    then show ?thesis by (simp add: abs_sup_def a_stop_def)
  qed
qed

end
