(* ===== verification/MainWindow.thy ===== *)
theory MainWindow
  imports Lifecycle
begin

text \<open>
  The main window's data (\<open>class MainWindow\<close> of \<open>src/src/mainwindow.h\<close>): the
  autostart flag, the configuration paths of each daemon and the five process pointers
  \<open>processNginx\<close> \<dots> \<open>processMemcached\<close>, the long-lived process table of the original
  design. Its member functions are only declared there. Spec section 9 re-architects the
  table into the supervisor, with read-only snapshots for the other components;
  \<open>mw_snapshot\<close> is that snapshot. The lemmas show that in every reachable state the
  snapshot's process pointers agree with the supervisor: a daemon's pointer is set
  exactly when it is \<open>Running\<close>, and then it names a live process of that daemon.
\<close>

record MainWindow =
  bAutostartDaemons :: bool
  cfgLogsDir :: string
  cfgPhpDir :: string
  cfgPhpConfig :: string
  cfgPhpFastCgiHost :: string
  cfgPhpFastCgiPort :: string
  cfgNginxDir :: string
  cfgNginxConfig :: string
  cfgNginxSites :: string
  cfgMariaDBDir :: string
  cfgMariaDBConfig :: string
  cfgMariaDBClientExec :: string
  cfgMongoDBDir :: string
  cfgMemcachedDir :: string
  processNginx :: "pid option"
  processPhp :: "pid option"
  processMariaDB :: "pid option"
  processMongoDB :: "pid option"
  processMemcached :: "pid option"

text \<open>The member holding a daemon's process, and the one holding its installation directory.\<close>

fun processOf :: "MainWindow \<Rightarrow> daemon \<Rightarrow> pid option" where
  "processOf w Nginx = processNginx w"
| "processOf w Php = processPhp w"
| "processOf w MariaDb = processMariaDB w"
| "processOf w MongoDb = processMongoDB w"
| "processOf w Memcached = processMemcached w"

fun cfgDirOf :: "MainWindow \<Rightarrow> daemon \<Rightarrow> string" where
  "cfgDirOf w Nginx = cfgNginxDir w"
| "cfgDirOf w Php = cfgPhpDir w"
| "cfgDirOf w MariaDb = cfgMariaDBDir w"
| "cfgDirOf w MongoDb = cfgMongoDBDir w"
| "cfgDirOf w Memcached = cfgMemcachedDir w"

definition mw_snapshot :: "sup \<Rightarrow> MainWindow \<Rightarrow> MainWindow" where
  "mw_snapshot s w =
     w\<lparr>processNginx := handle (table s Nginx), processPhp := handle (table s Php),
       processMariaDB := handle (table s MariaDb), processMongoDB := handle (table s MongoDb),
       processMemcached := handle (table s Memcached)\<rparr>"

lemma processOf_snapshot [simp]: "processOf (mw_snapshot s w) k = handle (table s k)"
  by (cases k) (simp_all add: mw_snapshot_def)

lemma reachable_snapshot:
  assumes "reachable t"
  shows "(processOf (mw_snapshot (servers t) w) k \<noteq> None \<longleftrightarrow> statusOf (servers t) k = Running) \<and>
         (\<forall>p. processOf (mw_snapshot (servers t) w) k = Some p \<longrightarrow> (p, k) \<in> set (live (servers t)))"
proof -
  have i: "sup_inv (servers t)" using reachable_ok [OF assms] by (simp add: sup_ok_def)
  show ?thesis using inv_handle_iff_running [OF i] inv_handle_live [OF i] by (simp add: statusOf_def)
qed

end
