(* ===== verification/Spec2Isabelle.thy ===== *)
theory Spec2Isabelle
  imports Batches Abstract MainWindow
begin

text \<open>
  \<^bold>\<open>A verification development of the WPN-XM server control panel.\<close>

  \<^bold>\<open>The program.\<close> The control panel is a Qt tray application that supervises five
  local server daemons (nginx, PHP-CGI, MariaDB, MongoDB, memcached). The repository's
  sources under \<open>src/\<close> are \<open>src/src/tray.cpp\<close> (the tray icon: its context
  menu, its slots, the autostart policy of the constructor and the stop-on-quit policy of
  the destructor) and \<open>src/src/mainwindow.h\<close> (the executable names \<open>*_EXEC\<close> and the
  main window's data members). The tray reads the configuration store
  (\<open>Settings::get\<close>, via \<open>QVariant::toBool\<close>) and calls the process supervisor
  (\<open>Servers::startX\<close>, \<open>Servers::stopX\<close>), which owns the OS processes. The
  store and the supervisor are implemented in files that are not under \<open>src/\<close>
  (\<open>settings.cpp\<close>, \<open>servers.cpp\<close>); they are modelled from the specification
  (sections 3, 4.2, 5, 6, 7), with every answer of the operating system (does the file
  exist, may the process be created, when does it exit, does it obey a kill) an explicit
  parameter of type \<open>os_env\<close>. So are the configuration keys of the launch recipe
  (\<open>dir_key\<close>, \<open>arg_keys\<close>: \<open>paths/<daemon>\<close> and the config-file keys, read in
  \<open>servers.cpp\<close>) and the list \<open>servers->servers()\<close> (\<open>server_list\<close>).

  \<^bold>\<open>Theories and correspondence with the code.\<close>
  \<^item> \<open>Prelude\<close>: the named collections \<open>model_defs\<close>, \<open>inv_intros\<close>, the types
    \<open>key\<close>, \<open>path\<close>, \<open>pid\<close>, and the generic lemmas on folds and association
    lists (\<open>fold_preserve\<close>, \<open>fold_frame\<close>, \<open>drop_key\<close>) the components share.
  \<^item> \<open>Settings\<close>: the configuration store as a finite map from keys to
    \<open>qvariant\<close> values; \<open>toBool\<close> and \<open>toString\<close> as Qt converts;
    \<open>flag cfg k\<close> is the tray's \<open>settings->get(k).toBool()\<close>.
  \<^item> \<open>Daemons\<close>: the datatype of the five daemons (an \<open>enum\<close> instance), with
    \<open>exec_name\<close> (the macros of \<open>mainwindow.h\<close>), \<open>graceful_stop_client\<close>
    (\<open>MARIADB_CLIENT_EXEC\<close>), \<open>autostart_key\<close> (the keys of \<open>tray.cpp\<close>), and the
    spec-modelled \<open>dir_key\<close> and \<open>arg_keys\<close> (PHP's FastCGI host and port members are
    not launch arguments in the model).
  \<^item> \<open>Supervisor\<close>: the record \<open>sup\<close> (a \<open>dstate\<close> per daemon: status, handle,
    last exit code; the OS process table \<open>live\<close>; the next fresh pid; the log of OS
    requests and of status-changed notifications). Operations \<open>server_start\<close>
    (\<open>resolve_launch\<close>, then \<open>launch\<close>), \<open>server_stop\<close> (\<open>soft_stop\<close>, the
    bounded wait, then \<open>force_stop\<close>) and \<open>process_exited\<close>. Every failure is a value
    of \<open>sup_error\<close> in the left of the result sum; no failure aborts the caller, and a
    termination failure changes no status, so it sends no notification. The invariant
    \<open>sup_inv\<close> (handles and the OS table agree, a handle exactly when Running, no
    Starting between operations, fresh distinct pids), \<open>waits_bounded\<close> and
    \<open>notes_consistent\<close> are proved preserved by every operation.
  \<^item> \<open>Tray\<close>: the record \<open>tray\<close> (settings, supervisor, context menu, opened URLs,
    alive flag). \<open>createTrayMenu\<close> and its IP section (\<open>ip_entries\<close>,
    \<open>iface_listed\<close>, \<open>address_entry\<close>; an address carries the text
    \<open>address.toString()\<close> gives, Qt's formatting being library code), the URL slots,
    \<open>call_start\<close>/\<open>call_stop\<close> (one \<open>servers->startX()\<close> line),
    \<open>autostartDaemons\<close>, \<open>startAllDaemons\<close>, \<open>stopAllDaemons\<close> (in the
    source's orders), the constructor \<open>tray_init\<close>, the destructor
    \<open>tray_destroy\<close> and the slot dispatcher \<open>trigger\<close>. Lemmas: no-op start and
    stop (C1, C2), the IP section (C23) and the rebuilt menu (C24).
  \<^item> \<open>Calls\<close>: the functional behaviour of one start or stop on each branch: the
    launch recipe (C5), success (C3, C7), missing executable or configuration (C4, C6),
    unconfirmed termination (C8), the order of the OS requests of a stop (C9).
  \<^item> \<open>Policy\<close>: the batch operations as folds of one call per daemon
    (\<open>autostart_step\<close>), their independence of the other daemons' failures and their
    request order (C10-C13), the autostart policy of the constructor (C14, C15) and the
    stop-on-quit guard of the destructor (C31).
  \<^item> \<open>Lifecycle\<close>: the application as the inductive step relation \<open>app_step\<close>
    (menu slots, a server submenu's start or stop, OS exit notifications, configuration
    edits) over the states \<open>reachable\<close> from the constructor; by rule induction every
    reachable state satisfies the supervisor's invariant (C16), its bounded waits (C17)
    and its notification consistency (C18); Start All and Quit as progress steps (C19,
    C20).
  \<^item> \<open>Abstract\<close>: the supervisor's contract as an abstract machine over the status
    of each daemon, and the functional refinement of the tray's calls into it (C21, C22).
  \<^item> \<open>Batches\<close>: properties across the supervisor and the tray's batches. The
    blocking time of a request sequence (\<open>total_wait\<close>, the sum of its waits) is at
    most five timeouts for \<open>stopAllDaemons\<close> and zero for \<open>startAllDaemons\<close>
    (C25, C26); a call leaves every other daemon's entry alone (C27); Stop All leaves no
    process behind (C28); the unguarded batches of \<open>tray.cpp\<close> equal the spec's
    guarded loops \<open>spec_stopAll\<close>, \<open>spec_startAll\<close> (C29); and a second Stop All
    after a failed termination, for any daemon whose process neither exits in time nor
    dies on the kill, leaves it \<open>Running\<close> and sends new requests for it (C30).
  \<^item> \<open>MainWindow\<close>: the data members of \<open>class MainWindow\<close> as a record (the
    autostart flag, the configuration paths, the five process pointers
    \<open>processNginx\<close> \<dots> \<open>processMemcached\<close>), the per-daemon selectors \<open>processOf\<close>
    and \<open>cfgDirOf\<close>, and the read-only snapshot \<open>mw_snapshot\<close> that spec section 9
    puts in place of the shared process table; \<open>reachable_snapshot\<close> shows that in every
    reachable state a pointer is set exactly for a \<open>Running\<close> daemon and names a live
    process of it.

  \<^bold>\<open>Bounds and fuel.\<close> Every definition is structural recursion or a fold over the
  fixed list of daemons, so no fuel is needed and every operation is total; no
  termination property is stated, since none would say more than that. The one bound is
  the stop timeout \<open>stop_timeout_ms = 3000\<close> of spec 4.2: a wait lasts the process's
  exit time when it is within the timeout and exactly the timeout otherwise, and
  \<open>waits_bounded\<close> records that every logged wait respects it; summed over a stop-all
  this gives the 15 s bound of C25.

  \<^bold>\<open>What is not modelled.\<close> Fonts, icons, the tool tip and widgets of the menu;
  Qt's formatting of addresses (\<open>QHostAddress::toString\<close>); the host manager dialog (a
  modal dialog whose class is not under \<open>src/\<close>: \<open>openHostManagerDialog\<close> models
  only its slot, which leaves the tray's state as it was); the main window's member
  functions, which are only declared in \<open>mainwindow.h\<close> (their bodies, in
  \<open>mainwindow.cpp\<close>, are not under \<open>src/\<close>), so that of the main window only its data
  members are modelled, and its Qt widgets, actions and tray icon pointers not at all;
  the tray helpers of \<open>tray.cpp\<close> that are commented out (lines 187-234); Qt's event
  loop beyond the order of events, which \<open>app_step\<close> leaves arbitrary; the concurrency
  of the OS, reduced to the answers of \<open>os_env\<close>.

  \<^bold>\<open>Findings.\<close> The constructor autostarts only when the global key
  \<open>global/autostartdaemons\<close> is set (C15), a switch the spec does not have; flags are
  read with \<open>toBool\<close>, so the string \<open>off\<close> counts as true; the idempotence of
  \<open>stopAll()\<close> that spec section 8 states holds only when every stop of the first call
  succeeded (C13), since a daemon whose termination failed stays \<open>Running\<close> and is
  stopped again (C30).
\<close>

end
